theory Spec2Isabelle
  imports Main "HOL-Library.Word"
begin

unbundle bit_operations_syntax

section \<open>The USOCK frame codec (package usock)\<close>

type_synonym byte = "8 word"
type_synonym uint16 = "16 word"

definition MaxPayloadLength :: nat where
  "MaxPayloadLength = 1024"

definition SyncByte1 :: byte where
  "SyncByte1 = 0xF6"

definition SyncByte2 :: byte where
  "SyncByte2 = 0xD9"

text \<open>The states of the receive state machine, in the order of the source's iota block.\<close>

datatype State =
    StateSync1
  | StateSync2
  | StateFrameID
  | StatePayloadLen1
  | StatePayloadLen2
  | StateHeaderCRC1
  | StateHeaderCRC2
  | StatePayload
  | StatePayloadCRC1
  | StatePayloadCRC2

record Frame =
  ID :: byte
  PayloadLen :: uint16
  HeaderCRC :: uint16
  Payload :: "byte list"
  PayloadCRC :: uint16

text \<open>The source's struct \<open>Payload\<close>: what the handler receives for a complete frame.\<close>

record RxPayload =
  MsgID :: byte
  Data :: "byte list"
  Size :: nat

text \<open>
  The fields of struct \<open>USOCK\<close> that the state machine reads and writes. The port, the
  handler, the stop channel, the wait group and the mutex are runtime handles; the handler
  is the one \<open>main\<close> installs, so a completed frame is always handed to it.
\<close>

record USOCK =
  state :: State
  frame :: Frame
  buffer :: "byte list"

text \<open>The CRC-16/ARC lookup table, entry by entry as in the source.\<close>

definition crc16Table :: "uint16 list" where
  "crc16Table = [
     0x0000, 0xC0C1, 0xC181, 0x0140, 0xC301, 0x03C0, 0x0280, 0xC241,
     0xC601, 0x06C0, 0x0780, 0xC741, 0x0500, 0xC5C1, 0xC481, 0x0440,
     0xCC01, 0x0CC0, 0x0D80, 0xCD41, 0x0F00, 0xCFC1, 0xCE81, 0x0E40,
     0x0A00, 0xCAC1, 0xCB81, 0x0B40, 0xC901, 0x09C0, 0x0880, 0xC841,
     0xD801, 0x18C0, 0x1980, 0xD941, 0x1B00, 0xDBC1, 0xDA81, 0x1A40,
     0x1E00, 0xDEC1, 0xDF81, 0x1F40, 0xDD01, 0x1DC0, 0x1C80, 0xDC41,
     0x1400, 0xD4C1, 0xD581, 0x1540, 0xD701, 0x17C0, 0x1680, 0xD641,
     0xD201, 0x12C0, 0x1380, 0xD341, 0x1100, 0xD1C1, 0xD081, 0x1040,
     0xF001, 0x30C0, 0x3180, 0xF141, 0x3300, 0xF3C1, 0xF281, 0x3240,
     0x3600, 0xF6C1, 0xF781, 0x3740, 0xF501, 0x35C0, 0x3480, 0xF441,
     0x3C00, 0xFCC1, 0xFD81, 0x3D40, 0xFF01, 0x3FC0, 0x3E80, 0xFE41,
     0xFA01, 0x3AC0, 0x3B80, 0xFB41, 0x3900, 0xF9C1, 0xF881, 0x3840,
     0x2800, 0xE8C1, 0xE981, 0x2940, 0xEB01, 0x2BC0, 0x2A80, 0xEA41,
     0xEE01, 0x2EC0, 0x2F80, 0xEF41, 0x2D00, 0xEDC1, 0xEC81, 0x2C40,
     0xE401, 0x24C0, 0x2580, 0xE541, 0x2700, 0xE7C1, 0xE681, 0x2640,
     0x2200, 0xE2C1, 0xE381, 0x2340, 0xE101, 0x21C0, 0x2080, 0xE041,
     0xA001, 0x60C0, 0x6180, 0xA141, 0x6300, 0xA3C1, 0xA281, 0x6240,
     0x6600, 0xA6C1, 0xA781, 0x6740, 0xA501, 0x65C0, 0x6480, 0xA441,
     0x6C00, 0xACC1, 0xAD81, 0x6D40, 0xAF01, 0x6FC0, 0x6E80, 0xAE41,
     0xAA01, 0x6AC0, 0x6B80, 0xAB41, 0x6900, 0xA9C1, 0xA881, 0x6840,
     0x7800, 0xB8C1, 0xB981, 0x7940, 0xBB01, 0x7BC0, 0x7A80, 0xBA41,
     0xBE01, 0x7EC0, 0x7F80, 0xBF41, 0x7D00, 0xBDC1, 0xBC81, 0x7C40,
     0xB401, 0x74C0, 0x7580, 0xB541, 0x7700, 0xB7C1, 0xB681, 0x7640,
     0x7200, 0xB2C1, 0xB381, 0x7340, 0xB101, 0x71C0, 0x7080, 0xB041,
     0x5000, 0x90C1, 0x9181, 0x5140, 0x9301, 0x53C0, 0x5280, 0x9241,
     0x9601, 0x56C0, 0x5780, 0x9741, 0x5500, 0x95C1, 0x9481, 0x5440,
     0x9C01, 0x5CC0, 0x5D80, 0x9D41, 0x5F00, 0x9FC1, 0x9E81, 0x5E40,
     0x5A00, 0x9AC1, 0x9B81, 0x5B40, 0x9901, 0x59C0, 0x5880, 0x9841,
     0x8801, 0x48C0, 0x4980, 0x8941, 0x4B00, 0x8BC1, 0x8A81, 0x4A40,
     0x4E00, 0x8EC1, 0x8F81, 0x4F40, 0x8D01, 0x4DC0, 0x4C80, 0x8C41,
     0x4400, 0x84C1, 0x8581, 0x4540, 0x8701, 0x47C0, 0x4680, 0x8641,
     0x8201, 0x42C0, 0x4380, 0x8341, 0x4100, 0x81C1, 0x8081, 0x4040]"

text \<open>
  \<open>calculateCRC16\<close>: the loop over the data is a recursion carrying the running CRC.
  The index is masked to eight bits, so the table read is always in range.
\<close>

definition crc16Step :: "uint16 \<Rightarrow> byte \<Rightarrow> uint16" where
  "crc16Step crc b =
     (let idx = (crc XOR ucast b) AND 0xff
      in drop_bit 8 crc XOR crc16Table ! unat idx)"

fun calculateCRC16 :: "byte list \<Rightarrow> uint16 \<Rightarrow> uint16" where
  "calculateCRC16 [] crc = crc"
| "calculateCRC16 (b # bs) crc = calculateCRC16 bs (crc16Step crc b)"

subsection \<open>Encoding: the frame built by WriteWithFrameID\<close>

text \<open>\<open>binary.LittleEndian.PutUint16\<close>: low byte first.\<close>

definition putUint16 :: "uint16 \<Rightarrow> byte list" where
  "putUint16 v = [ucast v, ucast (drop_bit 8 v)]"

definition frameHeader :: "byte \<Rightarrow> byte list \<Rightarrow> byte list" where
  "frameHeader frameID data =
     [SyncByte1, SyncByte2, frameID] @ putUint16 (of_nat (length data))"

definition completeFrame :: "byte \<Rightarrow> byte list \<Rightarrow> byte list" where
  "completeFrame frameID data =
     (let header = frameHeader frameID data;
          hcrc = calculateCRC16 header 0;
          pcrc = calculateCRC16 data 0
      in header
         @ [ucast (hcrc AND 0xFF), ucast (drop_bit 8 hcrc AND 0xFF)]
         @ data
         @ [ucast (pcrc AND 0xFF), ucast (drop_bit 8 pcrc AND 0xFF)])"

datatype error =
    ErrPayloadTooLong
  | ErrWriteFailed
  | ErrNoSock

text \<open>
  The serial port is a function telling whether a write of the given buffer succeeds.
  \<open>WriteWithFrameID\<close> returns the buffer it wrote in one call, or the error.
\<close>

type_synonym port = "byte list \<Rightarrow> bool"

definition WriteWithFrameID :: "port \<Rightarrow> byte \<Rightarrow> byte list \<Rightarrow> error + byte list" where
  "WriteWithFrameID p frameID data =
     (if length data > MaxPayloadLength then Inl ErrPayloadTooLong
      else let cf = completeFrame frameID data
           in if p cf then Inr cf else Inl ErrWriteFailed)"

subsection \<open>Decoding: processByte\<close>

definition newUSOCK :: USOCK where
  "newUSOCK =
     \<lparr>state = StateSync1,
      frame = \<lparr>ID = 0, PayloadLen = 0, HeaderCRC = 0, Payload = [], PayloadCRC = 0\<rparr>,
      buffer = []\<rparr>"

text \<open>
  One byte through the state machine. The result is the new machine and the payload handed
  to the handler, if this byte completed a frame.
\<close>

definition processByte :: "USOCK \<Rightarrow> byte \<Rightarrow> USOCK \<times> RxPayload option" where
  "processByte u b =
     (case state u of
        StateSync1 \<Rightarrow>
          (if b = SyncByte1 then (u\<lparr>state := StateSync2, buffer := [b]\<rparr>, None)
           else (u, None))
      | StateSync2 \<Rightarrow>
          (if b = SyncByte2 then (u\<lparr>state := StateFrameID, buffer := buffer u @ [b]\<rparr>, None)
           else (u\<lparr>state := StateSync1\<rparr>, None))
      | StateFrameID \<Rightarrow>
          (u\<lparr>frame := (frame u)\<lparr>ID := b\<rparr>, buffer := buffer u @ [b],
             state := StatePayloadLen1\<rparr>, None)
      | StatePayloadLen1 \<Rightarrow>
          (u\<lparr>frame := (frame u)\<lparr>PayloadLen := ucast b\<rparr>, buffer := buffer u @ [b],
             state := StatePayloadLen2\<rparr>, None)
      | StatePayloadLen2 \<Rightarrow>
          (let plen = PayloadLen (frame u) OR push_bit 8 (ucast b);
               buf = buffer u @ [b]
           in (u\<lparr>frame := (frame u)\<lparr>PayloadLen := plen, HeaderCRC := calculateCRC16 buf 0\<rparr>,
                  buffer := buf,
                  state := (if unat plen > MaxPayloadLength then StateSync1
                            else StateHeaderCRC1)\<rparr>, None))
      | StateHeaderCRC1 \<Rightarrow>
          (u\<lparr>frame := (frame u)\<lparr>HeaderCRC := ucast b\<rparr>, state := StateHeaderCRC2\<rparr>, None)
      | StateHeaderCRC2 \<Rightarrow>
          (let hcrc = HeaderCRC (frame u) OR push_bit 8 (ucast b);
               calculatedCRC = calculateCRC16 (buffer u) 0
           in if calculatedCRC \<noteq> hcrc
              then (u\<lparr>frame := (frame u)\<lparr>HeaderCRC := hcrc\<rparr>, state := StateSync1\<rparr>, None)
              else (u\<lparr>frame := (frame u)\<lparr>HeaderCRC := hcrc, Payload := []\<rparr>,
                      buffer := [], state := StatePayload\<rparr>, None))
      | StatePayload \<Rightarrow>
          (let pl = Payload (frame u) @ [b];
               buf = buffer u @ [b]
           in if (of_nat (length pl) :: uint16) \<ge> PayloadLen (frame u)
              then (u\<lparr>frame := (frame u)\<lparr>Payload := pl, PayloadCRC := calculateCRC16 buf 0\<rparr>,
                      buffer := buf, state := StatePayloadCRC1\<rparr>, None)
              else (u\<lparr>frame := (frame u)\<lparr>Payload := pl\<rparr>, buffer := buf\<rparr>, None))
      | StatePayloadCRC1 \<Rightarrow>
          (u\<lparr>frame := (frame u)\<lparr>PayloadCRC := ucast b\<rparr>, state := StatePayloadCRC2\<rparr>, None)
      | StatePayloadCRC2 \<Rightarrow>
          (let pcrc = PayloadCRC (frame u) OR push_bit 8 (ucast b);
               calculatedCRC = calculateCRC16 (buffer u) 0
           in if calculatedCRC \<noteq> pcrc
              then (u\<lparr>frame := (frame u)\<lparr>PayloadCRC := pcrc\<rparr>, state := StateSync1\<rparr>, None)
              else (u\<lparr>frame := (frame u)\<lparr>PayloadCRC := pcrc\<rparr>, state := StateSync1\<rparr>,
                    Some \<lparr>MsgID = ID (frame u), Data = Payload (frame u),
                          Size = length (Payload (frame u))\<rparr>)))"

text \<open>
  The read loop hands the bytes to \<open>processByte\<close> one at a time, in receipt order.
  \<open>feed\<close> runs the machine over a byte sequence and collects the delivered payloads.
\<close>

fun feed :: "USOCK \<Rightarrow> byte list \<Rightarrow> USOCK \<times> RxPayload list" where
  "feed u [] = (u, [])"
| "feed u (b # bs) =
     (let (u1, out) = processByte u b;
          (u2, outs) = feed u1 bs
      in (u2, (case out of None \<Rightarrow> [] | Some p \<Rightarrow> [p]) @ outs))"

definition delivered :: "byte list \<Rightarrow> RxPayload list" where
  "delivered bs = snd (feed newUSOCK bs)"

section \<open>Message types and subtypes (package ble)\<close>

type_synonym MessageType = uint16
type_synonym SubType = uint16

definition TypeDataStream :: MessageType where "TypeDataStream = 0x00C0"
definition TypeBLEParam :: MessageType where "TypeBLEParam = 0xA080"
definition TypeBattery :: MessageType where "TypeBattery = 0x00E0"
definition TypeVehicleState :: MessageType where "TypeVehicleState = 0x0020"
definition TypeScooterInfo :: MessageType where "TypeScooterInfo = 0xA040"
definition TypePowerManagement :: MessageType where "TypePowerManagement = 0x0800"
definition TypeBLEPairingPinDisplay :: MessageType where "TypeBLEPairingPinDisplay = 0xA080 + 2"
definition TypeBLEPairingPinRemove :: MessageType where "TypeBLEPairingPinRemove = 0xA080 + 3"
definition TypeBLEStatus :: MessageType where "TypeBLEStatus = 0xA080 + 4"
definition TypeBLECommand :: MessageType where "TypeBLECommand = 0xAA00"
definition TypeBLEDebug :: MessageType where "TypeBLEDebug = 0xA020"
definition TypeBLEReset :: MessageType where "TypeBLEReset = 0xA020 + 1"
definition TypeBLEVersion :: MessageType where "TypeBLEVersion = 0xA000"
definition TypeAuxBattery :: MessageType where "TypeAuxBattery = 0x0040"
definition TypeBatteryInfo :: MessageType where "TypeBatteryInfo = 0x0060"
definition TypePowerMux :: MessageType where "TypePowerMux = 0x0100"

definition TypeDataStreamEnable :: SubType where "TypeDataStreamEnable = 1"
definition TypeDataStreamSync :: SubType where "TypeDataStreamSync = 2"
definition TypeBLEParamMACAddress :: SubType where "TypeBLEParamMACAddress = 1"
definition TypeBLEParamData :: SubType where "TypeBLEParamData = 24"

definition TypeBatterySlot1Base :: SubType where "TypeBatterySlot1Base = 0x00E0"
definition TypeBatterySlot1State :: SubType where "TypeBatterySlot1State = 0x00E2"
definition TypeBatterySlot1Presence :: SubType where "TypeBatterySlot1Presence = 0x00E3"
definition TypeBatterySlot1CycleCount :: SubType where "TypeBatterySlot1CycleCount = 0x00E6"
definition TypeBatterySlot1Charge :: SubType where "TypeBatterySlot1Charge = 0x00E9"
definition TypeBatterySlot2Base :: SubType where "TypeBatterySlot2Base = 0x00EC"
definition TypeBatterySlot2State :: SubType where "TypeBatterySlot2State = 0x00EE"
definition TypeBatterySlot2Presence :: SubType where "TypeBatterySlot2Presence = 0x00EF"
definition TypeBatterySlot2CycleCount :: SubType where "TypeBatterySlot2CycleCount = 0x00F2"
definition TypeBatterySlot2Charge :: SubType where "TypeBatterySlot2Charge = 0x00F5"

definition TypeVehicleStateState :: SubType where "TypeVehicleStateState = 1"
definition TypeVehicleStateSeatbox :: SubType where "TypeVehicleStateSeatbox = 2"
definition TypeVehicleStateHandlebar :: SubType where "TypeVehicleStateHandlebar = 3"
definition TypeSoftwareVersion :: SubType where "TypeSoftwareVersion = 1"
definition TypeMileage :: SubType where "TypeMileage = 2"
definition TypePowerManagementState :: SubType where "TypePowerManagementState = 1"
definition TypePowerManagementPowerRequest :: SubType where "TypePowerManagementPowerRequest = 2"
definition TypeBLEDebugResetAck :: SubType where "TypeBLEDebugResetAck = 3"
definition TypeBLEVersionString :: SubType where "TypeBLEVersionString = 1"
definition TypeAuxBatteryVoltage :: SubType where "TypeAuxBatteryVoltage = 1"
definition TypeAuxBatteryCharge :: SubType where "TypeAuxBatteryCharge = 4"
definition TypeAuxBatteryChargerStatus :: SubType where "TypeAuxBatteryChargerStatus = 3"

definition TypeBatteryInfoCharge :: SubType where "TypeBatteryInfoCharge = 1"
definition TypeBatteryInfoCurrent :: SubType where "TypeBatteryInfoCurrent = 2"
definition TypeBatteryInfoRemCapacity :: SubType where "TypeBatteryInfoRemCapacity = 3"
definition TypeBatteryInfoFullCapacity :: SubType where "TypeBatteryInfoFullCapacity = 4"
definition TypeBatteryInfoCellVoltage :: SubType where "TypeBatteryInfoCellVoltage = 5"
definition TypeBatteryInfoTemp :: SubType where "TypeBatteryInfoTemp = 6"
definition TypeBatteryInfoCycleCount :: SubType where "TypeBatteryInfoCycleCount = 7"
definition TypeBatteryInfoStatus :: SubType where "TypeBatteryInfoStatus = 8"
definition TypeBatteryInfoTTE :: SubType where "TypeBatteryInfoTTE = 9"
definition TypeBatteryInfoTTF :: SubType where "TypeBatteryInfoTTF = 10"
definition TypeBatteryInfoProtectionStatus :: SubType where "TypeBatteryInfoProtectionStatus = 11"
definition TypeBatteryInfoSOH :: SubType where "TypeBatteryInfoSOH = 12"
definition TypeBatteryInfoUniqueID :: SubType where "TypeBatteryInfoUniqueID = 13"
definition TypeBatteryInfoSerialNumber :: SubType where "TypeBatteryInfoSerialNumber = 14"
definition TypeBatteryInfoBattStatus :: SubType where "TypeBatteryInfoBattStatus = 15"
definition TypeBatteryInfoPartNo :: SubType where "TypeBatteryInfoPartNo = 16"
definition TypeBatteryInfoPresent :: SubType where "TypeBatteryInfoPresent = 17"
definition TypeBatteryInfoChargeStatus :: SubType where "TypeBatteryInfoChargeStatus = 18"

type_synonym BLECommand = byte

definition BLECommandAdvStartWithWhitelist :: BLECommand where "BLECommandAdvStartWithWhitelist = 1"
definition BLECommandAdvRestartNoWhitelist :: BLECommand where "BLECommandAdvRestartNoWhitelist = 2"
definition BLECommandAdvStop :: BLECommand where "BLECommandAdvStop = 3"
definition BLECommandDeleteBond :: BLECommand where "BLECommandDeleteBond = 4"
definition BLECommandDeleteAllBonds :: BLECommand where "BLECommandDeleteAllBonds = 5"

section \<open>Constants of package service\<close>

definition KeyBatterySlot1 :: string where "KeyBatterySlot1 = ''battery:0''"
definition KeyBatterySlot2 :: string where "KeyBatterySlot2 = ''battery:1''"
definition KeyVehicle :: string where "KeyVehicle = ''vehicle''"
definition KeyPowerManager :: string where "KeyPowerManager = ''power-manager''"
definition KeyMileage :: string where "KeyMileage = ''engine-ecu''"
definition KeyFirmwareVersion :: string where "KeyFirmwareVersion = ''system''"
definition KeyBLEPairingPin :: string where "KeyBLEPairingPin = ''ble''"
definition KeyBLEStatus :: string where "KeyBLEStatus = ''ble''"
definition KeyCBBattery :: string where "KeyCBBattery = ''cb-battery''"
definition KeyCBBatteryAlert :: string where "KeyCBBatteryAlert = ''cb-battery:alert''"
definition KeyCBBatteryFault :: string where "KeyCBBatteryFault = ''cb-battery:fault''"

definition BatteryStateUnknown :: int where "BatteryStateUnknown = 0"
definition BatteryStateAsleep :: int where "BatteryStateAsleep = 1"
definition BatteryStateIdle :: int where "BatteryStateIdle = 2"
definition BatteryStateActive :: int where "BatteryStateActive = 3"

definition MAX1730X_STATUS_CURR_MIN_ALERT :: int where "MAX1730X_STATUS_CURR_MIN_ALERT = push_bit 2 1"
definition MAX1730X_STATUS_CURR_MAX_ALERT :: int where "MAX1730X_STATUS_CURR_MAX_ALERT = push_bit 6 1"
definition MAX1730X_STATUS_VOLT_MIN_ALERT :: int where "MAX1730X_STATUS_VOLT_MIN_ALERT = push_bit 8 1"
definition MAX1730X_STATUS_VOLT_MAX_ALERT :: int where "MAX1730X_STATUS_VOLT_MAX_ALERT = push_bit 12 1"
definition MAX1730X_STATUS_TEMP_MIN_ALERT :: int where "MAX1730X_STATUS_TEMP_MIN_ALERT = push_bit 9 1"
definition MAX1730X_STATUS_TEMP_MAX_ALERT :: int where "MAX1730X_STATUS_TEMP_MAX_ALERT = push_bit 13 1"
definition MAX1730X_STATUS_SOC_MIN_ALERT :: int where "MAX1730X_STATUS_SOC_MIN_ALERT = push_bit 10 1"
definition MAX1730X_STATUS_SOC_MAX_ALERT :: int where "MAX1730X_STATUS_SOC_MAX_ALERT = push_bit 14 1"

definition CB_BATTERY_STATUS_FILTER :: int where
  "CB_BATTERY_STATUS_FILTER =
     MAX1730X_STATUS_CURR_MIN_ALERT OR MAX1730X_STATUS_CURR_MAX_ALERT OR
     MAX1730X_STATUS_VOLT_MIN_ALERT OR MAX1730X_STATUS_VOLT_MAX_ALERT OR
     MAX1730X_STATUS_TEMP_MIN_ALERT OR MAX1730X_STATUS_TEMP_MAX_ALERT OR
     MAX1730X_STATUS_SOC_MIN_ALERT OR MAX1730X_STATUS_SOC_MAX_ALERT"

definition MAX1730X_PROTSTATUS_ODCP :: int where "MAX1730X_PROTSTATUS_ODCP = push_bit 2 1"
definition MAX1730X_PROTSTATUS_UVP :: int where "MAX1730X_PROTSTATUS_UVP = push_bit 3 1"
definition MAX1730X_PROTSTATUS_TOOHOTD :: int where "MAX1730X_PROTSTATUS_TOOHOTD = push_bit 4 1"
definition MAX1730X_PROTSTATUS_DIEHOT :: int where "MAX1730X_PROTSTATUS_DIEHOT = push_bit 5 1"
definition MAX1730X_PROTSTATUS_TOOCOLDC :: int where "MAX1730X_PROTSTATUS_TOOCOLDC = push_bit 12 1"
definition MAX1730X_PROTSTATUS_OVP :: int where "MAX1730X_PROTSTATUS_OVP = push_bit 11 1"
definition MAX1730X_PROTSTATUS_OCCP :: int where "MAX1730X_PROTSTATUS_OCCP = push_bit 10 1"
definition MAX1730X_PROTSTATUS_QOVFLW :: int where "MAX1730X_PROTSTATUS_QOVFLW = push_bit 9 1"
definition MAX1730X_PROTSTATUS_TOOHOTC :: int where "MAX1730X_PROTSTATUS_TOOHOTC = push_bit 14 1"
definition MAX1730X_PROTSTATUS_FULL :: int where "MAX1730X_PROTSTATUS_FULL = push_bit 13 1"

definition CB_BATTERY_PROTECTION_STATUS_FILTER :: int where
  "CB_BATTERY_PROTECTION_STATUS_FILTER =
     MAX1730X_PROTSTATUS_ODCP OR MAX1730X_PROTSTATUS_UVP OR
     MAX1730X_PROTSTATUS_TOOHOTD OR MAX1730X_PROTSTATUS_DIEHOT OR
     MAX1730X_PROTSTATUS_TOOCOLDC OR MAX1730X_PROTSTATUS_OVP OR
     MAX1730X_PROTSTATUS_OCCP OR MAX1730X_PROTSTATUS_QOVFLW OR
     MAX1730X_PROTSTATUS_TOOHOTC OR MAX1730X_PROTSTATUS_FULL"

definition MAX1730X_BATTSTATUS_CHG_FET_FAIL :: int where "MAX1730X_BATTSTATUS_CHG_FET_FAIL = push_bit 12 1"
definition MAX1730X_BATTSTATUS_DISCHG_FET_FAIL :: int where "MAX1730X_BATTSTATUS_DISCHG_FET_FAIL = push_bit 11 1"
definition MAX1730X_BATTSTATUS_FET_FAIL_OPEN :: int where "MAX1730X_BATTSTATUS_FET_FAIL_OPEN = push_bit 10 1"

definition CB_BATTERY_BATT_STATUS_FILTER :: int where
  "CB_BATTERY_BATT_STATUS_FILTER =
     MAX1730X_BATTSTATUS_CHG_FET_FAIL OR MAX1730X_BATTSTATUS_DISCHG_FET_FAIL OR
     MAX1730X_BATTSTATUS_FET_FAIL_OPEN"


section \<open>Values, the store and the serial link as the service sees them\<close>

text \<open>
  A decoded CBOR item is a Go \<open>interface{}\<close>. The constructors are the dynamic types the
  helper functions switch on; \<open>VOther\<close> stands for every remaining type (bool, float, nil).
  Go's \<open>int\<close> and \<open>uint\<close> have the width of the platform, given to the functions as the
  number of bits \<open>intBits\<close> (32 on the ARM build, 64 on amd64).
\<close>

datatype val =
    VInt int
  | VInt8 "8 word"
  | VInt16 "16 word"
  | VInt32 "32 word"
  | VInt64 "64 word"
  | VUint nat
  | VUint8 "8 word"
  | VUint16 "16 word"
  | VUint32 "32 word"
  | VUint64 "64 word"
  | VString string
  | VBytes "byte list"
  | VArray "val list"
  | VMap "(val \<times> val) list"
  | VOther

text \<open>
  The library functions of the Go runtime and of the CBOR package that the service calls:
  the width of \<open>int\<close>, \<open>strconv.Atoi\<close>, and \<open>cbor.Unmarshal\<close> into
  \<open>map[uint16]interface{}\<close> (\<open>None\<close> when it returns an error). A Go map is given as the
  list of its entries, in the order the \<open>range\<close> loop visits them.
\<close>

record Runtime =
  intBits :: nat
  Atoi :: "string \<Rightarrow> int option"
  Unmarshal :: "byte list \<Rightarrow> (uint16 \<times> val) list option"

text \<open>
  The service: the serial link (\<open>None\<close> for a nil pointer) and the store, read through
  \<open>HGet\<close> (\<open>None\<close> when the field is missing or the read fails).
\<close>

record Service =
  usock :: "port option"
  redis :: "string \<Rightarrow> string \<Rightarrow> string option"

text \<open>
  What a handler does to the outside, in program order: the store commands it issues and the
  frames it writes to the port. Log lines are not effects. \<open>WriteInt\<close> and \<open>WriteString\<close>
  are one \<open>HSet\<close>; the publishing variants are an \<open>HSet\<close> followed by a \<open>Publish\<close> on
  the channel named as the key.
\<close>

datatype rval = RInt int | RStr string

datatype effect =
    HSet string string rval
  | HDel string string
  | Publish string string
  | LPush string string
  | PortWrite "byte list"

definition digitChar :: "nat \<Rightarrow> char" where
  "digitChar d = ''0123456789'' ! d"

fun natToString :: "nat \<Rightarrow> string" where
  "natToString n =
     (if n < 10 then [digitChar n] else natToString (n div 10) @ [digitChar (n mod 10)])"

text \<open>The verb \<open>%d\<close> of \<open>fmt.Sprintf\<close> on an int.\<close>

definition intToString :: "int \<Rightarrow> string" where
  "intToString i = (if i < 0 then ''-'' @ natToString (nat (- i)) else natToString (nat i))"

definition WriteString :: "string \<Rightarrow> string \<Rightarrow> string \<Rightarrow> effect list" where
  "WriteString key field v = [HSet key field (RStr v)]"

definition WriteInt :: "string \<Rightarrow> string \<Rightarrow> int \<Rightarrow> effect list" where
  "WriteInt key field v = [HSet key field (RInt v)]"

definition WriteAndPublishString :: "string \<Rightarrow> string \<Rightarrow> string \<Rightarrow> effect list" where
  "WriteAndPublishString key field v =
     [HSet key field (RStr v), Publish key (field @ '':'' @ v)]"

definition WriteAndPublishInt :: "string \<Rightarrow> string \<Rightarrow> int \<Rightarrow> effect list" where
  "WriteAndPublishInt key field v =
     [HSet key field (RInt v), Publish key (field @ '':'' @ intToString v)]"

subsection \<open>helpers.go\<close>

definition batteryStateToInt :: "string \<Rightarrow> int" where
  "batteryStateToInt s =
     (if s = ''unknown'' then BatteryStateUnknown
      else if s = ''asleep'' then BatteryStateAsleep
      else if s = ''idle'' then BatteryStateIdle
      else if s = ''active'' then BatteryStateActive
      else BatteryStateUnknown)"

text \<open>
  The CBOR encoding of an unsigned integer below \<open>2 ^ 16\<close> under a major type, and of the
  nested map \<open>{messageType: {absoluteKey: value}}\<close> that \<open>cbor.Marshal\<close> produces for
  \<open>map[uint16]map[uint16]uint16\<close> (RFC 8949, shortest form).
\<close>

definition cborHead :: "nat \<Rightarrow> uint16 \<Rightarrow> byte list" where
  "cborHead major n =
     (if unat n < 24 then [of_nat (major * 32 + unat n)]
      else if unat n < 256 then [of_nat (major * 32 + 24), ucast n]
      else [of_nat (major * 32 + 25), ucast (drop_bit 8 n), ucast n])"

definition cborMarshal :: "uint16 \<Rightarrow> uint16 \<Rightarrow> uint16 \<Rightarrow> byte list" where
  "cborMarshal messageType absoluteKey v =
     cborHead 5 1 @ cborHead 0 messageType @ cborHead 5 1 @ cborHead 0 absoluteKey @ cborHead 0 v"

definition writeUARTMessage ::
  "port option \<Rightarrow> MessageType \<Rightarrow> SubType \<Rightarrow> uint16 \<Rightarrow> error + byte list" where
  "writeUARTMessage sock messageType subType v =
     (case sock of
        None \<Rightarrow> Inl ErrNoSock
      | Some p \<Rightarrow>
          (let absoluteKey = messageType + subType;
               cborData = cborMarshal messageType absoluteKey v;
               frameID = (ucast (messageType AND 0xFF) :: byte)
           in WriteWithFrameID p frameID cborData))"

definition maxInt :: "nat \<Rightarrow> int" where
  "maxInt bits = 2 ^ (bits - 1) - 1"

fun convertToInt :: "nat \<Rightarrow> val \<Rightarrow> int option" where
  "convertToInt bits (VInt v) = Some v"
| "convertToInt bits (VInt8 v) = Some (sint v)"
| "convertToInt bits (VInt16 v) = Some (sint v)"
| "convertToInt bits (VInt32 v) = Some (sint v)"
| "convertToInt bits (VInt64 v) =
     (if sint v \<le> maxInt bits \<and> sint v \<ge> maxInt bits * (-1) - 1 then Some (sint v) else None)"
| "convertToInt bits (VUint v) = (if int v \<le> maxInt bits then Some (int v) else None)"
| "convertToInt bits (VUint8 v) = Some (uint v)"
| "convertToInt bits (VUint16 v) = Some (uint v)"
| "convertToInt bits (VUint32 v) = (if uint v \<le> maxInt bits then Some (uint v) else None)"
| "convertToInt bits (VUint64 v) = (if uint v \<le> maxInt bits then Some (uint v) else None)"
| "convertToInt bits _ = None"

text \<open>Go strings are byte sequences; \<open>string(v)\<close> of a byte slice keeps the bytes.\<close>

fun convertToString :: "val \<Rightarrow> string option" where
  "convertToString (VString v) = Some v"
| "convertToString (VBytes v) = Some (map (\<lambda>b. char_of (unat b)) v)"
| "convertToString _ = None"

section \<open>Inbound dispatch (HandleUSockMessage and its handlers)\<close>

definition handleBatteryMessage :: "nat \<Rightarrow> SubType \<Rightarrow> val \<Rightarrow> int \<Rightarrow> effect list" where
  "handleBatteryMessage bits subType v slot =
     (let redisKey = (if slot = 2 then KeyBatterySlot2 else KeyBatterySlot1)
      in if subType = TypeBatterySlot1State \<or> subType = TypeBatterySlot2State then
           (case convertToInt bits v of
              Some st \<Rightarrow> WriteInt redisKey ''state'' st
            | None \<Rightarrow> [])
         else if subType = TypeBatterySlot1Presence \<or> subType = TypeBatterySlot2Presence then
           (case convertToInt bits v of
              Some present \<Rightarrow>
                WriteString redisKey ''present'' (if present \<noteq> 0 then ''true'' else ''false'')
            | None \<Rightarrow> [])
         else if subType = TypeBatterySlot1CycleCount \<or> subType = TypeBatterySlot2CycleCount then
           (case convertToInt bits v of
              Some count \<Rightarrow> WriteInt redisKey ''cycle-count'' count
            | None \<Rightarrow> [])
         else if subType = TypeBatterySlot1Charge \<or> subType = TypeBatterySlot2Charge then
           (case convertToInt bits v of
              Some charge \<Rightarrow> WriteInt redisKey ''charge'' charge
            | None \<Rightarrow> [])
         else [])"

text \<open>The handlers that only decode and log issue no command.\<close>

definition handleVehicleStateMessage :: "SubType \<Rightarrow> val \<Rightarrow> effect list" where
  "handleVehicleStateMessage subType v = []"

definition handlePowerManagementMessage :: "SubType \<Rightarrow> val \<Rightarrow> effect list" where
  "handlePowerManagementMessage subType v = []"

definition handleBLECommandMessage :: "MessageType \<Rightarrow> uint16 \<Rightarrow> val \<Rightarrow> effect list" where
  "handleBLECommandMessage msgType absSubTypeKey v = []"

definition handleScooterInfoMessage ::
  "nat \<Rightarrow> MessageType \<Rightarrow> uint16 \<Rightarrow> val \<Rightarrow> effect list" where
  "handleScooterInfoMessage bits msgType absSubTypeKey v =
     (let expectedMileageSubType = TypeScooterInfo + TypeMileage;
          expectedVersionSubType = TypeScooterInfo + TypeSoftwareVersion
      in if absSubTypeKey = expectedMileageSubType then
           (case convertToInt bits v of
              Some mileage \<Rightarrow> WriteInt KeyMileage ''odometer'' mileage
            | None \<Rightarrow> [])
         else if absSubTypeKey = expectedVersionSubType then
           (case convertToString v of
              Some versionStr \<Rightarrow> WriteString KeyFirmwareVersion ''mdb-version'' versionStr
            | None \<Rightarrow> [])
         else [])"

definition handleBLEVersionMessage :: "MessageType \<Rightarrow> uint16 \<Rightarrow> val \<Rightarrow> effect list" where
  "handleBLEVersionMessage msgType absSubTypeKey v =
     (let expectedAbsSubType = TypeBLEVersion + TypeBLEVersionString
      in if absSubTypeKey = expectedAbsSubType then
           (case convertToString v of
              Some versionStr \<Rightarrow> WriteString KeyBLEStatus ''nrf-fw-version'' versionStr
            | None \<Rightarrow> [])
         else [])"

definition handleBLEDebugMessage ::
  "nat \<Rightarrow> port option \<Rightarrow> MessageType \<Rightarrow> uint16 \<Rightarrow> val \<Rightarrow> effect list" where
  "handleBLEDebugMessage bits sock msgType absSubTypeKey v =
     (let expectedResetAckSubType = TypeBLEDebug + TypeBLEDebugResetAck;
          expectedResetInfoSubType = TypeBLEReset
      in if absSubTypeKey = expectedResetAckSubType then []
         else if absSubTypeKey = expectedResetInfoSubType then
           (case v of
              VArray [r, c] \<Rightarrow>
                (case (convertToInt bits r, convertToInt bits c) of
                   (Some reason, Some count) \<Rightarrow>
                     WriteInt KeyPowerManager ''nrf-reset-count'' count
                     @ WriteAndPublishInt KeyPowerManager ''nrf-reset-reason'' reason
                     @ (case writeUARTMessage sock TypeBLEDebug TypeBLEDebugResetAck 0 of
                          Inl e \<Rightarrow> []
                        | Inr f \<Rightarrow> [PortWrite f])
                 | _ \<Rightarrow> [])
            | _ \<Rightarrow> [])
         else [])"

definition handleDataStreamMessage :: "nat \<Rightarrow> SubType \<Rightarrow> val \<Rightarrow> effect list" where
  "handleDataStreamMessage bits subType v =
     (if subType = TypeDataStreamEnable then
        (case convertToInt bits v of
           Some enabled \<Rightarrow> WriteInt ''aux-battery'' ''data-stream-enable'' enabled
         | None \<Rightarrow> [])
      else [])"

definition handleAuxBatteryMessage :: "nat \<Rightarrow> SubType \<Rightarrow> val \<Rightarrow> effect list" where
  "handleAuxBatteryMessage bits subType v =
     (if subType = TypeAuxBatteryVoltage then
        (case convertToInt bits v of
           Some voltage \<Rightarrow> WriteInt ''aux-battery'' ''voltage'' voltage
         | None \<Rightarrow> [])
      else if subType = TypeAuxBatteryCharge then
        (case convertToInt bits v of
           Some charge \<Rightarrow> WriteInt ''aux-battery'' ''charge'' charge
         | None \<Rightarrow> [])
      else if subType = TypeAuxBatteryChargerStatus then
        (case convertToString v of
           Some statusStr \<Rightarrow> WriteString ''aux-battery'' ''charge-status'' statusStr
         | None \<Rightarrow> [])
      else [])"

definition handleBLEParamMessage :: "MessageType \<Rightarrow> uint16 \<Rightarrow> val \<Rightarrow> effect list" where
  "handleBLEParamMessage msgType absSubTypeKey v =
     (let expectedMACSubType = TypeBLEParam + TypeBLEParamMACAddress;
          expectedParamDataSubType = TypeBLEParam + TypeBLEParamData
      in if absSubTypeKey = expectedMACSubType then
           (case convertToString v of
              Some macAddrStr \<Rightarrow> WriteString KeyBLEStatus ''mac-address'' macAddrStr
            | None \<Rightarrow> [])
         else if absSubTypeKey = TypeBLEPairingPinDisplay then
           (case convertToString v of
              Some strValue \<Rightarrow> WriteAndPublishString KeyBLEPairingPin ''pin-code'' strValue
            | None \<Rightarrow> [])
         else if absSubTypeKey = TypeBLEPairingPinRemove then
           HDel KeyBLEPairingPin ''pin-code''
           # WriteAndPublishString KeyBLEPairingPin ''pin-code'' ''''
         else if absSubTypeKey = expectedParamDataSubType then []
         else if absSubTypeKey = TypeBLEStatus then
           (if msgType = TypeBLEParam then
              (case convertToString v of
                 Some statusStr \<Rightarrow> WriteString KeyBLEStatus ''connection-status'' statusStr
               | None \<Rightarrow> [])
            else [])
         else [])"

definition writeFaultToRedis ::
  "string \<Rightarrow> string \<Rightarrow> int \<Rightarrow> string \<Rightarrow> string \<Rightarrow> effect list" where
  "writeFaultToRedis key source code message faultType =
     (let field = faultType
      in if code = 0xFF \<and> message = '''' then [HDel key field]
         else WriteString key field message)"

text \<open>
  The second switch of \<open>handleBatteryInfoMessage\<close>, reached for the subtypes that carry no
  bit field, once the value converted to an int or to a string.
\<close>

definition batteryInfoStandard ::
  "SubType \<Rightarrow> bool \<Rightarrow> bool \<Rightarrow> int \<Rightarrow> string \<Rightarrow> effect list" where
  "batteryInfoStandard subType isInt isString valueInt valueStr =
     (let redisKey = KeyCBBattery;
          intField = (\<lambda>redisField. if isInt then WriteInt redisKey redisField valueInt else []);
          strField = (\<lambda>redisField. if isString then WriteString redisKey redisField valueStr else [])
      in if subType = TypeBatteryInfoCharge then intField ''charge''
         else if subType = TypeBatteryInfoCurrent then intField ''current''
         else if subType = TypeBatteryInfoRemCapacity then intField ''remaining-capacity''
         else if subType = TypeBatteryInfoFullCapacity then intField ''full-capacity''
         else if subType = TypeBatteryInfoCellVoltage then intField ''cell-voltage''
         else if subType = TypeBatteryInfoTemp then intField ''temperature''
         else if subType = TypeBatteryInfoCycleCount then intField ''cycle-count''
         else if subType = TypeBatteryInfoTTE then intField ''time-to-empty''
         else if subType = TypeBatteryInfoTTF then intField ''time-to-full''
         else if subType = TypeBatteryInfoSOH then intField ''state-of-health''
         else if subType = TypeBatteryInfoUniqueID then strField ''unique-id''
         else if subType = TypeBatteryInfoSerialNumber then strField ''serial-number''
         else if subType = TypeBatteryInfoPartNo then
           (if isInt then
              WriteString redisKey ''part-number''
                (if valueInt = 5 then ''MAX17301''
                 else if valueInt = 6 then ''MAX17302''
                 else if valueInt = 7 then ''MAX17303''
                 else ''MAX1730X ('' @ intToString valueInt @ '')'')
            else [])
         else if subType = TypeBatteryInfoPresent then
           (if isInt then
              WriteString redisKey ''present'' (if valueInt \<noteq> 0 then ''true'' else ''false'')
            else [])
         else if subType = TypeBatteryInfoChargeStatus then
           (if isInt then
              WriteString redisKey ''charge-status''
                (if valueInt = 0 then ''not-charging''
                 else if valueInt = 1 then ''charging''
                 else ''unknown'')
            else [])
         else [])"

definition handleBatteryInfoMessage :: "nat \<Rightarrow> SubType \<Rightarrow> val \<Rightarrow> effect list" where
  "handleBatteryInfoMessage bits subType v =
     (let intVal = convertToInt bits v;
          isInt = (intVal \<noteq> None);
          strVal = (if isInt then None else convertToString v);
          isString = (strVal \<noteq> None);
          processed = (isInt \<or> isString);
          valueInt = (case intVal of Some i \<Rightarrow> i | None \<Rightarrow> 0);
          valueStr = (case strVal of Some s \<Rightarrow> s | None \<Rightarrow> '''')
      in if subType = TypeBatteryInfoStatus then
           (if isInt then
              (if (valueInt AND MAX1730X_STATUS_CURR_MIN_ALERT) \<noteq> 0 then
                 writeFaultToRedis KeyCBBatteryAlert KeyCBBattery 0
                   ''Minimum Current Alert Threshold Exceeded'' ''alert''
               else if (valueInt AND MAX1730X_STATUS_CURR_MAX_ALERT) \<noteq> 0 then
                 writeFaultToRedis KeyCBBatteryAlert KeyCBBattery 1
                   ''Maximum Current Alert Threshold Exceeded'' ''alert''
               else if (valueInt AND MAX1730X_STATUS_VOLT_MIN_ALERT) \<noteq> 0 then
                 writeFaultToRedis KeyCBBatteryAlert KeyCBBattery 2
                   ''Minimum Voltage Alert Threshold Exceeded'' ''alert''
               else if (valueInt AND MAX1730X_STATUS_VOLT_MAX_ALERT) \<noteq> 0 then
                 writeFaultToRedis KeyCBBatteryAlert KeyCBBattery 3
                   ''Maximum Voltage Alert Threshold Exceeded'' ''alert''
               else if (valueInt AND MAX1730X_STATUS_TEMP_MIN_ALERT) \<noteq> 0 then
                 writeFaultToRedis KeyCBBatteryAlert KeyCBBattery 4
                   ''Minimum Temperature Alert Threshold Exceeded'' ''alert''
               else if (valueInt AND MAX1730X_STATUS_TEMP_MAX_ALERT) \<noteq> 0 then
                 writeFaultToRedis KeyCBBatteryAlert KeyCBBattery 5
                   ''Maximum Temperature Alert Threshold Exceeded'' ''alert''
               else if (valueInt AND MAX1730X_STATUS_SOC_MIN_ALERT) \<noteq> 0 then
                 writeFaultToRedis KeyCBBatteryAlert KeyCBBattery 6
                   ''Minimum SOC Alert Threshold Exceeded'' ''alert''
               else if (valueInt AND MAX1730X_STATUS_SOC_MAX_ALERT) \<noteq> 0 then
                 writeFaultToRedis KeyCBBatteryAlert KeyCBBattery 7
                   ''Maximum SOC Alert Threshold Exceeded'' ''alert''
               else if (valueInt AND CB_BATTERY_STATUS_FILTER) = 0 then
                 writeFaultToRedis KeyCBBatteryAlert KeyCBBattery 0xFF '''' ''alert''
               else [])
            else [])
         else if subType = TypeBatteryInfoProtectionStatus then
           (if isInt then
              (let dischargeFault =
                     ((valueInt AND MAX1730X_PROTSTATUS_ODCP) \<noteq> 0 \<or>
                      (valueInt AND MAX1730X_PROTSTATUS_UVP) \<noteq> 0 \<or>
                      (valueInt AND MAX1730X_PROTSTATUS_TOOHOTD) \<noteq> 0 \<or>
                      (valueInt AND MAX1730X_PROTSTATUS_DIEHOT) \<noteq> 0);
                   chargeFault =
                     ((valueInt AND MAX1730X_PROTSTATUS_TOOCOLDC) \<noteq> 0 \<or>
                      (valueInt AND MAX1730X_PROTSTATUS_OVP) \<noteq> 0 \<or>
                      (valueInt AND MAX1730X_PROTSTATUS_OCCP) \<noteq> 0 \<or>
                      (valueInt AND MAX1730X_PROTSTATUS_QOVFLW) \<noteq> 0 \<or>
                      (valueInt AND MAX1730X_PROTSTATUS_TOOHOTC) \<noteq> 0 \<or>
                      (valueInt AND MAX1730X_PROTSTATUS_FULL) \<noteq> 0 \<or>
                      (valueInt AND MAX1730X_PROTSTATUS_DIEHOT) \<noteq> 0)
               in if dischargeFault then
                    writeFaultToRedis KeyCBBatteryFault KeyCBBattery 0 ''Discharging fault'' ''fault''
                  else if chargeFault then
                    writeFaultToRedis KeyCBBatteryFault KeyCBBattery 1 ''Charging fault'' ''fault''
                  else if (valueInt AND CB_BATTERY_PROTECTION_STATUS_FILTER) = 0 then
                    writeFaultToRedis KeyCBBatteryFault KeyCBBattery 0xFF '''' ''fault''
                  else [])
            else [])
         else if subType = TypeBatteryInfoBattStatus then
           (if isInt then
              (if (valueInt AND MAX1730X_BATTSTATUS_CHG_FET_FAIL) \<noteq> 0 then
                 writeFaultToRedis KeyCBBatteryFault KeyCBBattery 2
                   ''ChargeFET Failure-Short Detected'' ''fault''
               else if (valueInt AND MAX1730X_BATTSTATUS_DISCHG_FET_FAIL) \<noteq> 0 then
                 writeFaultToRedis KeyCBBatteryFault KeyCBBattery 3
                   ''DischargeFET Failure-Short Detected'' ''fault''
               else if (valueInt AND MAX1730X_BATTSTATUS_FET_FAIL_OPEN) \<noteq> 0 then
                 writeFaultToRedis KeyCBBatteryFault KeyCBBattery 4 ''FET Failure open'' ''fault''
               else if (valueInt AND CB_BATTERY_BATT_STATUS_FILTER) = 0 then
                 writeFaultToRedis KeyCBBatteryFault KeyCBBattery 0xFF '''' ''fault''
               else [])
            else [])
         else if \<not> processed then []
         else batteryInfoStandard subType isInt isString valueInt valueStr)"

definition handleEventMessage :: "MessageType \<Rightarrow> uint16 \<Rightarrow> val \<Rightarrow> effect list" where
  "handleEventMessage msgType absSubTypeKey v =
     (case v of
        VString eventStr \<Rightarrow>
          (if eventStr = ''scooter:state unlock'' then [LPush ''scooter:state'' ''unlock'']
           else if eventStr = ''scooter:state lock'' then [LPush ''scooter:state'' ''lock'']
           else if eventStr = ''scooter:seatbox open'' then [LPush ''scooter:seatbox'' ''open'']
           else if eventStr = ''scooter:blinker right'' then [LPush ''scooter:blinker'' ''right'']
           else if eventStr = ''scooter:blinker left'' then [LPush ''scooter:blinker'' ''left'']
           else if eventStr = ''scooter:blinker both'' then [LPush ''scooter:blinker'' ''both'']
           else if eventStr = ''scooter:blinker off'' then [LPush ''scooter:blinker'' ''off'']
           else [])
      | _ \<Rightarrow> [])"

definition handlePowerMuxMessage :: "nat \<Rightarrow> SubType \<Rightarrow> val \<Rightarrow> effect list" where
  "handlePowerMuxMessage bits subType v =
     (case convertToInt bits v of
        None \<Rightarrow> []
      | Some powerMuxState \<Rightarrow>
          WriteAndPublishString ''power-mux'' ''selected-input''
            (if powerMuxState = 0 then ''aux'' else ''cb''))"

text \<open>
  The relative subtype of an entry: the difference to the message type, taken only when the
  absolute key is not below the type, and 0 otherwise.
\<close>

definition relativeSubTypeOf :: "MessageType \<Rightarrow> uint16 \<Rightarrow> SubType" where
  "relativeSubTypeOf msgType absSubTypeKey =
     (if absSubTypeKey \<ge> msgType then absSubTypeKey - msgType else 0)"

definition batterySlotOf :: "uint16 \<Rightarrow> int" where
  "batterySlotOf absSubTypeKey =
     (if absSubTypeKey \<ge> TypeBattery + TypeBatterySlot1State \<and>
         absSubTypeKey \<le> TypeBattery + TypeBatterySlot1Charge then 1
      else if absSubTypeKey \<ge> TypeBattery + TypeBatterySlot2State \<and>
              absSubTypeKey \<le> TypeBattery + TypeBatterySlot2Charge then 2
      else 0)"

text \<open>The switch on the outer message type, for one entry of the parameter map.\<close>

definition routeEntry ::
  "Runtime \<Rightarrow> Service \<Rightarrow> MessageType \<Rightarrow> uint16 \<Rightarrow> SubType \<Rightarrow> val \<Rightarrow> effect list" where
  "routeEntry rt s msgType absSubTypeKey relativeSubType v =
     (if msgType = TypeBattery then
        (let slot = batterySlotOf absSubTypeKey
         in if slot \<noteq> 0 then handleBatteryMessage (intBits rt) relativeSubType v slot else [])
      else if msgType = TypeVehicleState then handleVehicleStateMessage relativeSubType v
      else if msgType = TypeScooterInfo then
        handleScooterInfoMessage (intBits rt) msgType absSubTypeKey v
      else if msgType = TypeBLEParam \<or> msgType = TypeBLEPairingPinDisplay \<or>
              msgType = TypeBLEPairingPinRemove \<or> msgType = TypeBLEStatus then
        handleBLEParamMessage msgType absSubTypeKey v
      else if msgType = TypeBLEVersion then handleBLEVersionMessage msgType absSubTypeKey v
      else if msgType = TypeBLEDebug \<or> msgType = TypeBLEReset then
        handleBLEDebugMessage (intBits rt) (usock s) msgType absSubTypeKey v
      else if msgType = TypeDataStream then handleDataStreamMessage (intBits rt) relativeSubType v
      else if msgType = TypePowerManagement then handlePowerManagementMessage relativeSubType v
      else if msgType = TypeAuxBattery then handleAuxBatteryMessage (intBits rt) relativeSubType v
      else if msgType = TypeBLECommand then handleBLECommandMessage msgType absSubTypeKey v
      else if msgType = TypeBatteryInfo then handleBatteryInfoMessage (intBits rt) relativeSubType v
      else if msgType = TypePowerMux then handlePowerMuxMessage (intBits rt) relativeSubType v
      else if msgType = 0x0000 then handleEventMessage msgType absSubTypeKey v
      else [])"

definition handleEntry ::
  "Runtime \<Rightarrow> Service \<Rightarrow> MessageType \<Rightarrow> uint16 \<times> val \<Rightarrow> effect list" where
  "handleEntry rt s msgType kv =
     routeEntry rt s msgType (fst kv) (relativeSubTypeOf msgType (fst kv)) (snd kv)"

text \<open>
  The inner map arrives with keys of any type; the entries whose key is a uint64 of at most
  0xFFFF are kept, under the key cut to 16 bits.
\<close>

fun paramMapOf :: "(val \<times> val) list \<Rightarrow> (uint16 \<times> val) list" where
  "paramMapOf [] = []"
| "paramMapOf ((VUint64 keyInt, v) # rest) =
     (if uint keyInt > 0xFFFF then paramMapOf rest else (ucast keyInt, v) # paramMapOf rest)"
| "paramMapOf (kv # rest) = paramMapOf rest"

text \<open>The raw shape of an acknowledgement: four bytes A1, any, the frame ID, A0.\<close>

definition ackShape :: "byte \<Rightarrow> (uint16 \<times> val) list \<Rightarrow> byte list \<Rightarrow> bool" where
  "ackShape frameID msgData rawData =
     (length msgData = 0 \<and> length rawData = 4 \<and> rawData ! 0 = 0xa1 \<and>
      rawData ! 2 = frameID \<and> rawData ! 3 = 0xa0)"

definition HandleUSockMessage :: "Runtime \<Rightarrow> Service \<Rightarrow> byte \<Rightarrow> RxPayload \<Rightarrow> effect list" where
  "HandleUSockMessage rt s frameID payload =
     (case Unmarshal rt (Data payload) of
        None \<Rightarrow> []
      | Some msgData \<Rightarrow>
          (if length msgData \<noteq> 1 then
             (if ackShape frameID msgData (Data payload) then [] else [])
           else
             (case hd msgData of
                (absoluteMsgType, VMap interMap) \<Rightarrow>
                  concat (map (handleEntry rt s absoluteMsgType) (paramMapOf interMap))
              | _ \<Rightarrow> [])))"

section \<open>Outbound translation (redis_handlers.go)\<close>

text \<open>The reading half of the store client: \<open>None\<close> is the error return.\<close>

definition GetString :: "Service \<Rightarrow> string \<Rightarrow> string \<Rightarrow> string option" where
  "GetString s key field = redis s key field"

definition GetInt :: "Runtime \<Rightarrow> Service \<Rightarrow> string \<Rightarrow> string \<Rightarrow> int option" where
  "GetInt rt s key field =
     (case redis s key field of None \<Rightarrow> None | Some v \<Rightarrow> Atoi rt v)"

definition GetStateInt :: "Runtime \<Rightarrow> Service \<Rightarrow> string \<Rightarrow> string \<Rightarrow> int option" where
  "GetStateInt rt s key field =
     (case redis s key field of
        None \<Rightarrow> None
      | Some v \<Rightarrow>
          (if v = ''standby'' then Some 0
           else if v = ''parked'' then Some 1
           else if v = ''ready-to-drive'' then Some 2
           else if v = ''shutting-down'' then Some 3
           else if v = ''updating'' then Some 4
           else if v = ''off'' then Some 5
           else if v = ''running'' then Some 1
           else if v = ''closed'' then Some 0
           else if v = ''open'' then Some 1
           else Atoi rt v))"

text \<open>
  \<open>writeUARTMessageString\<close> differs from \<open>writeUARTMessage\<close> in the value only, a CBOR
  text string, whose encoding is left to the codec: the function takes the marshalled bytes
  of the value.
\<close>

definition writeUARTMessageString ::
  "port option \<Rightarrow> MessageType \<Rightarrow> SubType \<Rightarrow> byte list \<Rightarrow> error + byte list" where
  "writeUARTMessageString sock messageType subType encodedValue =
     (case sock of
        None \<Rightarrow> Inl ErrNoSock
      | Some p \<Rightarrow>
          (let absoluteKey = messageType + subType;
               cborData = cborHead 5 1 @ cborHead 0 messageType @ cborHead 5 1
                          @ cborHead 0 absoluteKey @ encodedValue;
               frameID = (ucast (messageType AND 0xFF) :: byte)
           in WriteWithFrameID p frameID cborData))"

definition UpdateVehicleState :: "Runtime \<Rightarrow> Service \<Rightarrow> error + byte list" where
  "UpdateVehicleState rt s =
     (let st = (case GetStateInt rt s KeyVehicle ''state'' of None \<Rightarrow> 0 | Some n \<Rightarrow> n)
      in writeUARTMessage (usock s) TypeVehicleState TypeVehicleStateState (of_int st))"

definition UpdateSeatboxLock :: "Runtime \<Rightarrow> Service \<Rightarrow> error + byte list" where
  "UpdateSeatboxLock rt s =
     (let st = (case GetStateInt rt s KeyVehicle ''seatbox:lock'' of None \<Rightarrow> 0 | Some n \<Rightarrow> n)
      in writeUARTMessage (usock s) TypeVehicleState TypeVehicleStateSeatbox (of_int st))"

definition UpdateHandlebarLock :: "Service \<Rightarrow> error + byte list" where
  "UpdateHandlebarLock s =
     (let stateInt =
            (case GetString s KeyVehicle ''handlebar:lock-sensor'' of
               None \<Rightarrow> 0
             | Some stateStr \<Rightarrow>
                 (if stateStr = ''locked'' then 0
                  else if stateStr = ''unlocked'' then 1
                  else 0))
      in writeUARTMessage (usock s) TypeVehicleState TypeVehicleStateHandlebar stateInt)"

definition UpdateMileage :: "Runtime \<Rightarrow> Service \<Rightarrow> error + byte list" where
  "UpdateMileage rt s =
     (let mileage = (case GetInt rt s KeyMileage ''odometer'' of None \<Rightarrow> 0 | Some n \<Rightarrow> n)
      in writeUARTMessage (usock s) TypeScooterInfo TypeMileage (of_int mileage))"

definition UpdateFirmwareVersion ::
  "(string \<Rightarrow> byte list) \<Rightarrow> Service \<Rightarrow> error + byte list" where
  "UpdateFirmwareVersion marshalText s =
     (let version = (case GetString s KeyFirmwareVersion ''mdb-version'' of
                       None \<Rightarrow> '''' | Some v \<Rightarrow> v)
      in writeUARTMessageString (usock s) TypeScooterInfo TypeSoftwareVersion
           (marshalText version))"

definition UpdateBatteryActiveStatus :: "Service \<Rightarrow> int \<Rightarrow> error + byte list" where
  "UpdateBatteryActiveStatus s slot =
     (let key = (if slot = 2 then KeyBatterySlot2 else KeyBatterySlot1);
          baseSubType = (if slot = 2 then TypeBatterySlot2State else TypeBatterySlot1State);
          stateStr = (case GetString s key ''state'' of None \<Rightarrow> ''unknown'' | Some v \<Rightarrow> v);
          status = batteryStateToInt stateStr
      in writeUARTMessage (usock s) TypeBattery baseSubType (of_int status))"

definition UpdateBatteryPresentStatus :: "Runtime \<Rightarrow> Service \<Rightarrow> int \<Rightarrow> error + byte list" where
  "UpdateBatteryPresentStatus rt s slot =
     (let key = (if slot = 2 then KeyBatterySlot2 else KeyBatterySlot1);
          baseSubType = (if slot = 2 then TypeBatterySlot2Presence else TypeBatterySlot1Presence);
          present =
            (case GetInt rt s key ''present'' of
               Some n \<Rightarrow> n
             | None \<Rightarrow>
                 (case GetString s key ''present'' of
                    None \<Rightarrow> 0
                  | Some presentStr \<Rightarrow>
                      (if presentStr = ''true'' \<or> presentStr = ''1'' then 1 else 0)))
      in writeUARTMessage (usock s) TypeBattery baseSubType (of_int present))"

definition UpdateBatteryCycleCount :: "Runtime \<Rightarrow> Service \<Rightarrow> int \<Rightarrow> error + byte list" where
  "UpdateBatteryCycleCount rt s slot =
     (let key = (if slot = 2 then KeyBatterySlot2 else KeyBatterySlot1);
          baseSubType = (if slot = 2 then TypeBatterySlot2CycleCount
                         else TypeBatterySlot1CycleCount);
          cycles = (case GetInt rt s key ''cycle-count'' of None \<Rightarrow> 0 | Some n \<Rightarrow> n)
      in writeUARTMessage (usock s) TypeBattery baseSubType (of_int cycles))"

definition UpdateBatteryRemainingCharge :: "Runtime \<Rightarrow> Service \<Rightarrow> int \<Rightarrow> error + byte list" where
  "UpdateBatteryRemainingCharge rt s slot =
     (let key = (if slot = 2 then KeyBatterySlot2 else KeyBatterySlot1);
          baseSubType = (if slot = 2 then TypeBatterySlot2Charge else TypeBatterySlot1Charge);
          charge = (case GetInt rt s key ''charge'' of None \<Rightarrow> 0 | Some n \<Rightarrow> n)
      in writeUARTMessage (usock s) TypeBattery baseSubType (of_int charge))"

text \<open>The string-to-integer switch of \<open>UpdatePowerManagementState\<close>.\<close>

definition powerStateInt :: "string \<Rightarrow> uint16" where
  "powerStateInt stateStr =
     (if stateStr = ''running'' then 1
      else if stateStr = ''suspending'' then 0
      else if stateStr = ''hibernating'' then 2
      else if stateStr = ''hibernating-l2'' then 2
      else if stateStr = ''suspending-imminent'' then 3
      else if stateStr = ''hibernating-imminent'' then 4
      else if stateStr = ''reboot'' then 5
      else if stateStr = ''reboot-imminent'' then 1
      else 1)"

text \<open>
  The result lists the frames written. A failure of the first send is returned; a failure of
  the level request is only logged.
\<close>

definition UpdatePowerManagementState :: "Service \<Rightarrow> error + byte list list" where
  "UpdatePowerManagementState s =
     (let stateStr = (case GetString s KeyPowerManager ''state'' of
                        None \<Rightarrow> ''running'' | Some v \<Rightarrow> v);
          stateInt = powerStateInt stateStr
      in case writeUARTMessage (usock s) TypePowerManagement TypePowerManagementState stateInt of
           Inl e \<Rightarrow> Inl e
         | Inr f1 \<Rightarrow>
             (if stateStr = ''hibernating-l2'' then
                (let level = 1
                 in case writeUARTMessage (usock s) TypePowerManagement
                           TypePowerManagementPowerRequest level of
                      Inl e \<Rightarrow> Inr [f1]
                    | Inr f2 \<Rightarrow> Inr [f1, f2])
              else Inr [f1]))"

text \<open>The frames a call put on the wire; its error is logged by the subscriber.\<close>

definition written :: "error + byte list \<Rightarrow> byte list list" where
  "written r = (case r of Inl e \<Rightarrow> [] | Inr f \<Rightarrow> [f])"

definition writtenAll :: "error + byte list list \<Rightarrow> byte list list" where
  "writtenAll r = (case r of Inl e \<Rightarrow> [] | Inr fs \<Rightarrow> fs)"

text \<open>
  The body of the subscriber loop of \<open>SubscribeToRedisChannels\<close> for one message on channel
  \<open>chName\<close>: the whole payload is taken as the field name. The result is the list of frames
  written to the port while handling the message.
\<close>

definition onRedisMessage ::
  "Runtime \<Rightarrow> (string \<Rightarrow> byte list) \<Rightarrow> Service \<Rightarrow> string \<Rightarrow> string \<Rightarrow> byte list list" where
  "onRedisMessage rt marshalText s chName payload =
     (let field = payload
      in if chName = KeyVehicle then
           (if field = ''state'' then written (UpdateVehicleState rt s)
            else if field = ''seatbox:lock'' then written (UpdateSeatboxLock rt s)
            else if field = ''handlebar:lock-sensor'' then written (UpdateHandlebarLock s)
            else [])
         else if chName = KeyBatterySlot1 then
           (if field = ''state'' then written (UpdateBatteryActiveStatus s 1)
            else if field = ''present'' then
              written (UpdateBatteryPresentStatus rt s 1) @ written (UpdateBatteryCycleCount rt s 1)
            else if field = ''charge'' then written (UpdateBatteryRemainingCharge rt s 1)
            else if field = ''cycle-count'' then written (UpdateBatteryCycleCount rt s 1)
            else [])
         else if chName = KeyBatterySlot2 then
           (if field = ''state'' then written (UpdateBatteryActiveStatus s 2)
            else if field = ''present'' then
              written (UpdateBatteryPresentStatus rt s 2) @ written (UpdateBatteryCycleCount rt s 2)
            else if field = ''charge'' then written (UpdateBatteryRemainingCharge rt s 2)
            else if field = ''cycle-count'' then written (UpdateBatteryCycleCount rt s 2)
            else [])
         else if chName = KeyPowerManager then
           (if field = ''state'' then writtenAll (UpdatePowerManagementState s) else [])
         else if chName = KeyMileage then
           (if field = ''odometer'' then written (UpdateMileage rt s) else [])
         else if chName = KeyFirmwareVersion then
           (if field = ''mdb-version'' then written (UpdateFirmwareVersion marshalText s) else [])
         else if chName = KeyBLEPairingPin then
           (if field = ''pin-code'' then
              (case GetString s KeyBLEPairingPin ''pin-code'' of
                 None \<Rightarrow> written (writeUARTMessage (usock s) TypeBLEPairingPinRemove 0 1)
               | Some pin \<Rightarrow>
                   (if pin = '''' then
                      written (writeUARTMessage (usock s) TypeBLEPairingPinRemove 0 1)
                    else []))
            else [])
         else [])"

text \<open>The publishes among the effects of a handler, as (channel, payload) pairs.\<close>

fun publishes :: "effect list \<Rightarrow> (string \<times> string) list" where
  "publishes [] = []"
| "publishes (Publish ch p # es) = (ch, p) # publishes es"
| "publishes (e # es) = publishes es"

section \<open>Notions used to state the properties\<close>

text \<open>The header CRC field of an encoded frame: bytes 5 and 6, low byte first.\<close>

definition headerCRCField :: "byte list \<Rightarrow> uint16" where
  "headerCRCField bs = ucast (bs ! 5) OR push_bit 8 (ucast (bs ! 6))"

text \<open>
  The alert table as the specification words it: the bits in the order they are tested, each
  with its message, and the effect of a status value: the message of the first bit that is
  set, or the deletion of the field when none is.
\<close>

definition spec_alertTable :: "(int \<times> string) list" where
  "spec_alertTable =
     [(0x0004, ''Minimum Current Alert Threshold Exceeded''),
      (0x0040, ''Maximum Current Alert Threshold Exceeded''),
      (0x0100, ''Minimum Voltage Alert Threshold Exceeded''),
      (0x1000, ''Maximum Voltage Alert Threshold Exceeded''),
      (0x0200, ''Minimum Temperature Alert Threshold Exceeded''),
      (0x2000, ''Maximum Temperature Alert Threshold Exceeded''),
      (0x0400, ''Minimum SOC Alert Threshold Exceeded''),
      (0x4000, ''Maximum SOC Alert Threshold Exceeded'')]"

definition spec_statusAlert :: "int \<Rightarrow> effect list" where
  "spec_statusAlert n =
     (case find (\<lambda>(m, msg). (n AND m) \<noteq> 0) spec_alertTable of
        Some (m, msg) \<Rightarrow> [HSet ''cb-battery:alert'' ''alert'' (RStr msg)]
      | None \<Rightarrow> [HDel ''cb-battery:alert'' ''alert''])"



text \<open>
  The frame that carries the envelope \<open>{messageType: {absoluteKey: value}}\<close> under the frame
  identifier given by the low byte of the message type.
\<close>

definition envelopeFrame :: "uint16 \<Rightarrow> uint16 \<Rightarrow> uint16 \<Rightarrow> byte list" where
  "envelopeFrame messageType absoluteKey v =
     completeFrame (ucast messageType) (cborMarshal messageType absoluteKey v)"

text \<open>
  The publishes the inbound handlers can issue: on the three channels below, with a payload
  that starts with the field name and a colon.
\<close>

definition inboundPublish :: "string \<times> string \<Rightarrow> bool" where
  "inboundPublish cp =
     (case cp of (ch, p) \<Rightarrow>
        (ch = ''ble'' \<and> take 9 p = ''pin-code:'') \<or>
        (ch = ''power-manager'' \<and> take 17 p = ''nrf-reset-reason:'') \<or>
        (ch = ''power-mux'' \<and> take 15 p = ''selected-input:''))"

definition inboundOnly :: "effect list \<Rightarrow> bool" where
  "inboundOnly es = (\<forall>cp \<in> set (publishes es). inboundPublish cp)"

section \<open>Collections of defining equations\<close>

lemmas MessageType_defs =
  TypeDataStream_def TypeBLEParam_def TypeBattery_def TypeVehicleState_def
  TypeScooterInfo_def TypePowerManagement_def TypeBLEPairingPinDisplay_def
  TypeBLEPairingPinRemove_def TypeBLEStatus_def TypeBLECommand_def TypeBLEDebug_def
  TypeBLEReset_def TypeBLEVersion_def TypeAuxBattery_def TypeBatteryInfo_def
  TypePowerMux_def

lemmas SubType_defs =
  TypeDataStreamEnable_def TypeDataStreamSync_def TypeBLEParamMACAddress_def
  TypeBLEParamData_def TypeBatterySlot1Base_def TypeBatterySlot1State_def
  TypeBatterySlot1Presence_def TypeBatterySlot1CycleCount_def TypeBatterySlot1Charge_def
  TypeBatterySlot2Base_def TypeBatterySlot2State_def TypeBatterySlot2Presence_def
  TypeBatterySlot2CycleCount_def TypeBatterySlot2Charge_def TypeVehicleStateState_def
  TypeVehicleStateSeatbox_def TypeVehicleStateHandlebar_def TypeSoftwareVersion_def
  TypeMileage_def TypePowerManagementState_def TypePowerManagementPowerRequest_def
  TypeBLEDebugResetAck_def TypeBLEVersionString_def TypeAuxBatteryVoltage_def
  TypeAuxBatteryCharge_def TypeAuxBatteryChargerStatus_def

lemmas BatteryInfo_defs =
  TypeBatteryInfoCharge_def TypeBatteryInfoCurrent_def TypeBatteryInfoRemCapacity_def
  TypeBatteryInfoFullCapacity_def TypeBatteryInfoCellVoltage_def TypeBatteryInfoTemp_def
  TypeBatteryInfoCycleCount_def TypeBatteryInfoStatus_def TypeBatteryInfoTTE_def
  TypeBatteryInfoTTF_def TypeBatteryInfoProtectionStatus_def TypeBatteryInfoSOH_def
  TypeBatteryInfoUniqueID_def TypeBatteryInfoSerialNumber_def TypeBatteryInfoBattStatus_def
  TypeBatteryInfoPartNo_def TypeBatteryInfoPresent_def TypeBatteryInfoChargeStatus_def

lemmas Key_defs =
  KeyBatterySlot1_def KeyBatterySlot2_def KeyVehicle_def KeyPowerManager_def KeyMileage_def
  KeyFirmwareVersion_def KeyBLEPairingPin_def KeyBLEStatus_def KeyCBBattery_def
  KeyCBBatteryAlert_def KeyCBBatteryFault_def

lemmas MAX1730X_STATUS_defs =
  MAX1730X_STATUS_CURR_MIN_ALERT_def MAX1730X_STATUS_CURR_MAX_ALERT_def
  MAX1730X_STATUS_VOLT_MIN_ALERT_def MAX1730X_STATUS_VOLT_MAX_ALERT_def
  MAX1730X_STATUS_TEMP_MIN_ALERT_def MAX1730X_STATUS_TEMP_MAX_ALERT_def
  MAX1730X_STATUS_SOC_MIN_ALERT_def MAX1730X_STATUS_SOC_MAX_ALERT_def

section \<open>Properties of the frame codec\<close>

subsection \<open>Bytes and 16-bit values\<close>

lemma and_ff: "(c :: uint16) AND 0xFF = take_bit 8 c"
proof -
  have "(0xFF :: uint16) = mask 8"
    by (simp add: mask_eq_exp_minus_1)
  then show ?thesis
    by (simp add: take_bit_eq_mask)
qed

lemma le16_join:
  "(ucast (ucast (c AND 0xFF :: uint16) :: byte) :: uint16)
     OR push_bit 8 (ucast (ucast (drop_bit 8 c AND 0xFF :: uint16) :: byte)) = c"
  unfolding and_ff by (rule bit_word_eqI) (auto simp: bit_simps)

lemma le16_join_put:
  "(ucast (ucast (c :: uint16) :: byte) :: uint16)
     OR push_bit 8 (ucast (ucast (drop_bit 8 c :: uint16) :: byte)) = c"
  by (rule bit_word_eqI) (auto simp: bit_simps)

lemma unat_len16: "n \<le> 1024 \<Longrightarrow> unat (of_nat n :: uint16) = n"
  by (simp add: unat_of_nat)

lemma len16_less:
  assumes "k < n" and "n \<le> 1024"
  shows "\<not> (of_nat n :: uint16) \<le> of_nat k"
proof -
  have "unat (of_nat k :: uint16) = k" "unat (of_nat n :: uint16) = n"
    using assms by (simp_all add: unat_of_nat)
  then show ?thesis
    using assms by (simp add: word_le_nat_alt)
qed

subsection \<open>Running the machine over a sequence\<close>

lemma feed_append:
  "feed u (xs @ ys) =
     (let (u1, o1) = feed u xs; (u2, o2) = feed u1 ys in (u2, o1 @ o2))"
  by (induction xs arbitrary: u) (auto split: prod.splits option.splits)

lemma feed_seq:
  "feed u xs = (u1, o1) \<Longrightarrow> feed u1 ys = (u2, o2) \<Longrightarrow> feed u (xs @ ys) = (u2, o1 @ o2)"
  by (simp add: feed_append)

lemma feed_Cons_None:
  "processByte u b = (u1, None) \<Longrightarrow> feed u1 bs = (u2, outs) \<Longrightarrow> feed u (b # bs) = (u2, outs)"
  by simp

text \<open>
  From the idle state, the five header bytes and the two bytes of their CRC bring the machine
  to the payload state with an empty payload, whatever was left in its fields.
\<close>

lemma feed_header:
  assumes "state u = StateSync1" and "length data \<le> 1024"
  shows "\<exists>u'. feed u (frameHeader fid data @
              [ucast (calculateCRC16 (frameHeader fid data) 0 AND 0xFF),
               ucast (drop_bit 8 (calculateCRC16 (frameHeader fid data) 0) AND 0xFF)]) = (u', [])
          \<and> state u' = StatePayload \<and> buffer u' = [] \<and> Payload (frame u') = []
          \<and> ID (frame u') = fid \<and> PayloadLen (frame u') = of_nat (length data)"
  using assms
  by (simp add: frameHeader_def putUint16_def processByte_def SyncByte1_def SyncByte2_def
      le16_join le16_join_put unat_len16 MaxPayloadLength_def Let_def)

text \<open>
  In the payload state the machine collects bytes until their number reaches the announced
  length: induction on the bytes still to come, with the bytes already taken generalised.
\<close>

lemma feed_payload:
  assumes "state u = StatePayload"
    and "PayloadLen (frame u) = of_nat (length (pre @ rest))"
    and "Payload (frame u) = pre" and "buffer u = pre"
    and "rest \<noteq> []" and "length (pre @ rest) \<le> 1024"
  shows "\<exists>u'. feed u rest = (u', []) \<and> state u' = StatePayloadCRC1
           \<and> buffer u' = pre @ rest \<and> Payload (frame u') = pre @ rest
           \<and> ID (frame u') = ID (frame u)"
  using assms
proof (induction rest arbitrary: u pre)
  case Nil
  then show ?case by simp
next
  case (Cons b bs)
  show ?case
  proof (cases "bs = []")
    case True
    with Cons.prems show ?thesis
      by (simp add: processByte_def Let_def)
  next
    case False
    obtain u1 where pb: "processByte u b = (u1, None)"
      using Cons.prems(1)
      by (cases "processByte u b") (auto simp add: processByte_def Let_def split: if_splits)
    have lt: "length (pre @ [b]) < length (pre @ b # bs)"
      using False by (cases bs) simp_all
    have nle: "\<not> (of_nat (length (pre @ b # bs)) :: uint16) \<le> of_nat (length (pre @ [b]))"
      using len16_less [OF lt] Cons.prems(6) by simp
    have step: "state u1 = StatePayload"
      "PayloadLen (frame u1) = of_nat (length ((pre @ [b]) @ bs))"
      "Payload (frame u1) = pre @ [b]" "buffer u1 = pre @ [b]"
      "ID (frame u1) = ID (frame u)"
      using Cons.prems nle pb by (auto simp add: processByte_def Let_def)
    have "length ((pre @ [b]) @ bs) \<le> 1024"
      using Cons.prems(6) by simp
    from Cons.IH [OF step(1) step(2) step(3) step(4) False this]
    obtain u' where u': "feed u1 bs = (u', [])" "state u' = StatePayloadCRC1"
      "buffer u' = (pre @ [b]) @ bs" "Payload (frame u') = (pre @ [b]) @ bs"
      "ID (frame u') = ID (frame u1)"
      by blast
    have "feed u (b # bs) = (u', [])"
      by (rule feed_Cons_None [OF pb u'(1)])
    with u' step(5) show ?thesis
      by simp
  qed
qed

lemma feed_trailer:
  assumes "state u = StatePayloadCRC1" and "buffer u = data" and "Payload (frame u) = data"
  shows "\<exists>u'. feed u [ucast (calculateCRC16 data 0 AND 0xFF),
                       ucast (drop_bit 8 (calculateCRC16 data 0) AND 0xFF)]
           = (u', [\<lparr>MsgID = ID (frame u), Data = data, Size = length data\<rparr>])
          \<and> state u' = StateSync1"
  using assms by (simp add: processByte_def Let_def le16_join)

text \<open>
  Round trip from any idle machine: an encoded frame with a payload of 1 to 1024 bytes is
  delivered, alone, and leaves the machine idle.
\<close>

lemma feed_completeFrame:
  assumes "state u = StateSync1" and "data \<noteq> []" and "length data \<le> 1024"
  shows "\<exists>u'. feed u (completeFrame fid data)
           = (u', [\<lparr>MsgID = fid, Data = data, Size = length data\<rparr>])
          \<and> state u' = StateSync1"
proof -
  let ?hdr = "frameHeader fid data @
              [ucast (calculateCRC16 (frameHeader fid data) 0 AND 0xFF),
               ucast (drop_bit 8 (calculateCRC16 (frameHeader fid data) 0) AND 0xFF)]"
  let ?trl = "[ucast (calculateCRC16 data 0 AND 0xFF),
               ucast (drop_bit 8 (calculateCRC16 data 0) AND 0xFF)]"
  have split: "completeFrame fid data = ?hdr @ (data @ ?trl)"
    by (simp add: completeFrame_def Let_def)
  obtain u1 where u1: "feed u ?hdr = (u1, [])" "state u1 = StatePayload" "buffer u1 = []"
    "Payload (frame u1) = []" "ID (frame u1) = fid"
    "PayloadLen (frame u1) = of_nat (length data)"
    using feed_header [OF assms(1) assms(3), of fid] by blast
  obtain u2 where u2: "feed u1 data = (u2, [])" "state u2 = StatePayloadCRC1"
    "buffer u2 = data" "Payload (frame u2) = data" "ID (frame u2) = fid"
    using feed_payload [of u1 "[]" data] u1 assms(2,3) by auto
  obtain u3 where u3: "feed u2 ?trl = (u3, [\<lparr>MsgID = fid, Data = data, Size = length data\<rparr>])"
    "state u3 = StateSync1"
    using feed_trailer [OF u2(2) u2(3) u2(4)] u2(5) by auto
  have "feed u (?hdr @ (data @ ?trl))
          = (u3, [] @ ([] @ [\<lparr>MsgID = fid, Data = data, Size = length data\<rparr>]))"
    by (rule feed_seq [OF u1(1) feed_seq [OF u2(1) u3(1)]])
  with u3(2) show ?thesis
    unfolding split by simp
qed

lemma roundtrip_nonempty:
  assumes "data \<noteq> []" and "length data \<le> 1024"
  shows "delivered (completeFrame fid data) = [\<lparr>MsgID = fid, Data = data, Size = length data\<rparr>]"
proof -
  have "state newUSOCK = StateSync1"
    by (simp add: newUSOCK_def)
  from feed_completeFrame [OF this assms, of fid] show ?thesis
    by (auto simp add: delivered_def)
qed

text \<open>Bytes other than the first sync byte leave an idle machine idle and deliver nothing.\<close>

lemma feed_no_sync:
  assumes "state u = StateSync1" and "SyncByte1 \<notin> set G"
  shows "feed u G = (u, [])"
  using assms by (induction G) (auto simp add: processByte_def)

text \<open>
  C1. Round trip of the frame codec. For a payload of 1 to 1024 bytes the encoded frame is
  delivered as \<open>roundtrip_nonempty\<close> states. For the empty payload it is not: after the
  header CRC the machine enters the payload state and takes the next byte as payload, so the
  two bytes of the payload CRC are consumed as one payload byte and one CRC byte, nothing is
  delivered and the machine waits for the second CRC byte.
\<close>

theorem empty_payload_frame_not_delivered:
  "delivered (completeFrame fid []) = []
   \<and> state (fst (feed newUSOCK (completeFrame fid []))) = StatePayloadCRC2
   \<and> WriteWithFrameID (\<lambda>bs. True) fid [] = Inr (completeFrame fid [])"
proof -
  let ?hdr = "frameHeader fid [] @
              [ucast (calculateCRC16 (frameHeader fid []) 0 AND 0xFF),
               ucast (drop_bit 8 (calculateCRC16 (frameHeader fid []) 0) AND 0xFF)]"
  have split: "completeFrame fid [] = ?hdr @ [0, 0]"
    by (simp add: completeFrame_def Let_def)
  have "state newUSOCK = StateSync1"
    by (simp add: newUSOCK_def)
  then obtain u1 where u1: "feed newUSOCK ?hdr = (u1, [])" "state u1 = StatePayload"
    "PayloadLen (frame u1) = of_nat (length ([] :: byte list))"
    using feed_header [of newUSOCK "[]" fid] by auto
  obtain u2 where u2: "feed u1 [0, 0] = (u2, [])" "state u2 = StatePayloadCRC2"
    using u1(2,3) by (simp add: processByte_def Let_def)
  have "feed newUSOCK (?hdr @ [0, 0]) = (u2, [] @ [])"
    by (rule feed_seq [OF u1(1) u2(1)])
  then have run: "feed newUSOCK (completeFrame fid []) = (u2, [])"
    unfolding split by simp
  have enc: "WriteWithFrameID (\<lambda>bs. True) fid [] = Inr (completeFrame fid [])"
    by (simp add: WriteWithFrameID_def MaxPayloadLength_def)
  from run u2(2) enc show ?thesis
    by (simp add: delivered_def)
qed

text \<open>
  C2, as stated, at frame identifier 0xC0 and payload 01: the stored header CRC is not the
  CRC of the first seven bytes of the frame, which include the CRC field itself.
\<close>

theorem header_crc_seven_bytes_counterexample:
  "headerCRCField (completeFrame 0xC0 [1])
     \<noteq> calculateCRC16 (take 7 (completeFrame 0xC0 [1])) 0"
  by code_simp

text \<open>
  C2, amended. The header CRC stored in an encoded frame is CRC-16/ARC of its first five
  bytes, which are the two sync bytes, the frame identifier and the payload length, low byte
  first. The receiver, having taken five such bytes with a length of at most 1024 from the
  idle state, accepts the next two bytes exactly when they are the CRC-16/ARC of those five
  bytes, low byte first, and goes back to the idle state otherwise.
\<close>

theorem header_crc_covers_five_bytes:
  assumes "state u = StateSync1"
    and "unat (ucast l0 OR push_bit 8 (ucast l1) :: uint16) \<le> MaxPayloadLength"
  shows "headerCRCField (completeFrame fid data)
           = calculateCRC16 (take 5 (completeFrame fid data)) 0
         \<and> take 5 (completeFrame fid data)
           = [SyncByte1, SyncByte2, fid] @ putUint16 (of_nat (length data))
         \<and> state (fst (feed u [SyncByte1, SyncByte2, fid, l0, l1, c0, c1]))
           = (if calculateCRC16 [SyncByte1, SyncByte2, fid, l0, l1] 0
                 = (ucast c0 OR push_bit 8 (ucast c1))
              then StatePayload else StateSync1)"
proof -
  have enc: "headerCRCField (completeFrame fid data)
           = calculateCRC16 (take 5 (completeFrame fid data)) 0"
    by (simp add: headerCRCField_def completeFrame_def frameHeader_def putUint16_def Let_def
        le16_join)
  have hdr: "take 5 (completeFrame fid data)
           = [SyncByte1, SyncByte2, fid] @ putUint16 (of_nat (length data))"
    by (simp add: completeFrame_def frameHeader_def putUint16_def Let_def)
  have dec: "state (fst (feed u [SyncByte1, SyncByte2, fid, l0, l1, c0, c1]))
           = (if calculateCRC16 [SyncByte1, SyncByte2, fid, l0, l1] 0
                 = (ucast c0 OR push_bit 8 (ucast c1))
              then StatePayload else StateSync1)"
    using assms by (simp add: processByte_def Let_def)
  from enc hdr dec show ?thesis
    by blast
qed

theorem header_crc_covers_five_bytes_witness:
  "state newUSOCK = StateSync1
   \<and> unat (ucast (1 :: byte) OR push_bit 8 (ucast (0 :: byte)) :: uint16) \<le> MaxPayloadLength
   \<and> headerCRCField (completeFrame 0xC0 [1]) = calculateCRC16 (take 5 (completeFrame 0xC0 [1])) 0
   \<and> state (fst (feed newUSOCK [SyncByte1, SyncByte2, 0xC0, 1, 0, 0xF2, 0xE5])) = StatePayload
   \<and> state (fst (feed newUSOCK [SyncByte1, SyncByte2, 0xC0, 1, 0, 0xF2, 0xE6])) = StateSync1"
proof -
  have h1: "state newUSOCK = StateSync1"
    by (simp add: newUSOCK_def)
  have h2: "unat (ucast (1 :: byte) OR push_bit 8 (ucast (0 :: byte)) :: uint16)
              \<le> MaxPayloadLength"
    by (simp add: MaxPayloadLength_def)
  have crc: "calculateCRC16 [SyncByte1, SyncByte2, 0xC0, 1, 0] 0 = 0xE5F2"
    by code_simp
  have j1: "(ucast (0xF2 :: byte) OR push_bit 8 (ucast (0xE5 :: byte)) :: uint16) = 0xE5F2"
    by simp
  have j2: "(ucast (0xF2 :: byte) OR push_bit 8 (ucast (0xE6 :: byte)) :: uint16) = 0xE6F2"
    by simp
  show ?thesis
    using h1 h2
      header_crc_covers_five_bytes [where fid = "0xC0" and data = "[1]" and ?c0.0 = "0xF2"
        and ?c1.0 = "0xE5", OF h1 h2]
      header_crc_covers_five_bytes [where fid = "0xC0" and data = "[1]" and ?c0.0 = "0xF2"
        and ?c1.0 = "0xE6", OF h1 h2]
    by (simp only: crc j1 j2) simp
qed

text \<open>
  C6, as stated, at the garbage prefix F6 and the frame with identifier 0xC0 and payload 01:
  the stray sync byte takes the frame's own first byte as a failed second sync byte, the rest
  of the frame is skipped, and nothing is delivered.
\<close>

theorem resync_after_stray_sync_counterexample:
  "delivered ([0xF6] @ completeFrame 0xC0 [1]) = []"
  by code_simp

text \<open>
  C6, amended. When the garbage leaves the machine waiting for the first sync byte, which is
  the case for every garbage sequence without the byte F6, a following frame with a payload
  of 1 to 1024 bytes is delivered, after the frames the garbage itself produced.
\<close>

theorem resync_from_idle:
  assumes "state (fst (feed newUSOCK G)) = StateSync1"
    and "data \<noteq> []" and "length data \<le> MaxPayloadLength"
  shows "delivered (G @ completeFrame fid data)
           = delivered G @ [\<lparr>MsgID = fid, Data = data, Size = length data\<rparr>]"
proof -
  obtain u1 o1 where g: "feed newUSOCK G = (u1, o1)"
    by (cases "feed newUSOCK G")
  with assms(1) have idle: "state u1 = StateSync1"
    by simp
  have len: "length data \<le> 1024"
    using assms(3) by (simp add: MaxPayloadLength_def)
  from feed_completeFrame [OF idle assms(2) len, of fid]
  obtain u2 where f: "feed u1 (completeFrame fid data)
      = (u2, [\<lparr>MsgID = fid, Data = data, Size = length data\<rparr>])"
    by blast
  have "feed newUSOCK (G @ completeFrame fid data)
      = (u2, o1 @ [\<lparr>MsgID = fid, Data = data, Size = length data\<rparr>])"
    by (rule feed_seq [OF g f])
  with g show ?thesis
    by (simp add: delivered_def)
qed

theorem resync_from_idle_witness:
  "state (fst (feed newUSOCK [0x00, 0xF6, 0x00])) = StateSync1
   \<and> [1 :: byte] \<noteq> [] \<and> length [1 :: byte] \<le> MaxPayloadLength
   \<and> delivered ([0x00, 0xF6, 0x00] @ completeFrame 0xC0 [1])
       = delivered [0x00, 0xF6, 0x00] @ [\<lparr>MsgID = 0xC0, Data = [1], Size = length [1 :: byte]\<rparr>]"
proof -
  have h1: "state (fst (feed newUSOCK [0x00, 0xF6, 0x00])) = StateSync1"
    by code_simp
  have h2: "[1 :: byte] \<noteq> []"
    by simp
  have h3: "length [1 :: byte] \<le> MaxPayloadLength"
    by (simp add: MaxPayloadLength_def)
  from h1 h2 h3
    resync_from_idle [where G = "[0x00, 0xF6, 0x00]" and data = "[1]" and fid = "0xC0", OF h1 h2 h3]
  show ?thesis
    by blast
qed

text \<open>Garbage without the byte F6 leaves the machine idle and delivers nothing.\<close>

lemma garbage_without_sync_is_idle:
  assumes "SyncByte1 \<notin> set G"
  shows "state (fst (feed newUSOCK G)) = StateSync1 \<and> delivered G = []"
proof -
  have "state newUSOCK = StateSync1"
    by (simp add: newUSOCK_def)
  from feed_no_sync [OF this assms] show ?thesis
    by (simp add: delivered_def newUSOCK_def)
qed

section \<open>Properties of the inbound dispatch\<close>

subsection \<open>Relative subtypes\<close>

text \<open>
  C10. For an entry whose absolute key is below the message type the relative subtype is 0,
  which is not the wrapped 16-bit difference, and the entry is routed with relative subtype
  0; when the key is not below the type the relative subtype is the exact difference.
\<close>

theorem relative_subtype_guarded:
  "(absSubTypeKey < msgType \<longrightarrow>
      relativeSubTypeOf msgType absSubTypeKey = 0
      \<and> relativeSubTypeOf msgType absSubTypeKey \<noteq> absSubTypeKey - msgType
      \<and> handleEntry rt s msgType (absSubTypeKey, v) = routeEntry rt s msgType absSubTypeKey 0 v)
   \<and> (msgType \<le> absSubTypeKey \<longrightarrow>
      unat (relativeSubTypeOf msgType absSubTypeKey) = unat absSubTypeKey - unat msgType)"
proof (intro conjI impI)
  assume lt: "absSubTypeKey < msgType"
  then show z: "relativeSubTypeOf msgType absSubTypeKey = 0"
    by (auto simp add: relativeSubTypeOf_def)
  from lt have "absSubTypeKey \<noteq> msgType"
    by auto
  then have nz: "absSubTypeKey - msgType \<noteq> 0"
    by simp
  show "relativeSubTypeOf msgType absSubTypeKey \<noteq> absSubTypeKey - msgType"
    unfolding z using nz by simp
  from z show "handleEntry rt s msgType (absSubTypeKey, v)
      = routeEntry rt s msgType absSubTypeKey 0 v"
    by (simp add: handleEntry_def)
next
  assume "msgType \<le> absSubTypeKey"
  then show "unat (relativeSubTypeOf msgType absSubTypeKey) = unat absSubTypeKey - unat msgType"
    by (simp add: relativeSubTypeOf_def unat_sub)
qed

theorem relative_subtype_guarded_witness:
  "(0x0010 :: uint16) < 0x0060
   \<and> relativeSubTypeOf 0x0060 0x0010 = 0
   \<and> relativeSubTypeOf 0x0060 0x0010 \<noteq> 0x0010 - 0x0060
   \<and> (0x0060 :: uint16) \<le> 0x0068
   \<and> unat (relativeSubTypeOf 0x0060 0x0068) = 8"
  using relative_subtype_guarded [where absSubTypeKey = "0x0010" and msgType = "0x0060"]
    relative_subtype_guarded [where absSubTypeKey = "0x0068" and msgType = "0x0060"]
  by simp

subsection \<open>Messages that are discarded\<close>

text \<open>
  C9. A decoded payload whose top-level map has more than one key, or has no key and is not
  of the acknowledgement shape, causes no store command and no write to the port. (The same
  holds for the acknowledgement itself: every top-level map without exactly one key.)
\<close>

theorem unexpected_top_level_discarded:
  assumes "Unmarshal rt (Data payload) = Some msgData"
    and "length msgData > 1 \<or> (msgData = [] \<and> \<not> ackShape frameID msgData (Data payload))"
  shows "HandleUSockMessage rt s frameID payload = []"
  using assms by (auto simp add: HandleUSockMessage_def)

theorem unexpected_top_level_discarded_witness:
  "Unmarshal \<lparr>intBits = 32, Atoi = (\<lambda>x. None),
              Unmarshal = (\<lambda>d. Some [(0x00E0, VMap []), (0x0060, VMap [])])\<rparr>
      (Data \<lparr>MsgID = 0xE0, Data = [0xA2, 0x18, 0xE0, 0xA0, 0x18, 0x60, 0xA0], Size = 7\<rparr>)
     = Some [(0x00E0, VMap []), (0x0060, VMap [])]
   \<and> length [(0x00E0 :: uint16, VMap []), (0x0060, VMap [])] > 1
   \<and> HandleUSockMessage \<lparr>intBits = 32, Atoi = (\<lambda>x. None),
              Unmarshal = (\<lambda>d. Some [(0x00E0, VMap []), (0x0060, VMap [])])\<rparr>
        \<lparr>usock = None, redis = (\<lambda>k f. None)\<rparr> 0xE0
        \<lparr>MsgID = 0xE0, Data = [0xA2, 0x18, 0xE0, 0xA0, 0x18, 0x60, 0xA0], Size = 7\<rparr> = []
   \<and> \<not> ackShape 0xE0 [] [0xA0]
   \<and> HandleUSockMessage \<lparr>intBits = 32, Atoi = (\<lambda>x. None), Unmarshal = (\<lambda>d. Some [])\<rparr>
        \<lparr>usock = None, redis = (\<lambda>k f. None)\<rparr> 0xE0
        \<lparr>MsgID = 0xE0, Data = [0xA0], Size = 1\<rparr> = []"
proof -
  let ?rt2 = "\<lparr>intBits = 32, Atoi = (\<lambda>x. None),
               Unmarshal = (\<lambda>d. Some [(0x00E0, VMap []), (0x0060, VMap [])])\<rparr>"
  let ?pl2 = "\<lparr>MsgID = 0xE0, Data = [0xA2, 0x18, 0xE0, 0xA0, 0x18, 0x60, 0xA0], Size = 7\<rparr>"
  let ?rt0 = "\<lparr>intBits = 32, Atoi = (\<lambda>x. None), Unmarshal = (\<lambda>d. Some [])\<rparr>"
  let ?pl0 = "\<lparr>MsgID = 0xE0, Data = [0xA0], Size = 1\<rparr>"
  have a1: "Unmarshal ?rt2 (Data ?pl2) = Some [(0x00E0, VMap []), (0x0060, VMap [])]"
    by simp
  have a2: "length [(0x00E0 :: uint16, VMap []), (0x0060, VMap [])] > 1
            \<or> ([(0x00E0 :: uint16, VMap []), (0x0060, VMap [])] = []
               \<and> \<not> ackShape 0xE0 [(0x00E0, VMap []), (0x0060, VMap [])] (Data ?pl2))"
    by simp
  have b1: "Unmarshal ?rt0 (Data ?pl0) = Some []"
    by simp
  have nack: "\<not> ackShape 0xE0 [] [0xA0]"
    by (simp add: ackShape_def)
  have b2: "length ([] :: (uint16 \<times> val) list) > 1
            \<or> (([] :: (uint16 \<times> val) list) = [] \<and> \<not> ackShape 0xE0 [] (Data ?pl0))"
    using nack by simp
  from a1 nack
    unexpected_top_level_discarded [OF a1 a2, where s = "\<lparr>usock = None, redis = (\<lambda>k f. None)\<rparr>"]
    unexpected_top_level_discarded [OF b1 b2, where s = "\<lparr>usock = None, redis = (\<lambda>k f. None)\<rparr>"]
  show ?thesis
    by simp
qed

subsection \<open>Battery slots\<close>

text \<open>
  The slot test compares the absolute key with the message type plus the slot constants,
  which already contain the family base 0xE0: slot 1 is the range 0x01C2..0x01C9 and slot 2
  the range 0x01CE..0x01D5.
\<close>

lemma batterySlotOf_ranges:
  "batterySlotOf k =
     (if 0x01C2 \<le> k \<and> k \<le> 0x01C9 then 1 else if 0x01CE \<le> k \<and> k \<le> 0x01D5 then 2 else 0)"
  by (simp add: batterySlotOf_def TypeBattery_def TypeBatterySlot1State_def
      TypeBatterySlot1Charge_def TypeBatterySlot2State_def TypeBatterySlot2Charge_def)

lemma batterySlotOf_low: "k \<le> 0x00F5 \<Longrightarrow> batterySlotOf k = 0"
  unfolding batterySlotOf_ranges by (auto simp add: word_le_nat_alt)

text \<open>
  C3. Inbound battery routing at the envelope \<open>{0x00E0: {0x00E2: 3}}\<close>, the state of slot 1
  as the claim and the comments on the subtype constants give it: no slot is found, and
  nothing is written. The handler writes the state of \<open>battery:0\<close> for the key 0x01C2, the
  family base added to the constant a second time.
\<close>

theorem battery_state_key_00E2_not_routed:
  "handleEntry rt s TypeBattery (0x00E2, v) = []
   \<and> handleEntry rt s TypeBattery (0x00EE, v) = []
   \<and> HandleUSockMessage
        \<lparr>intBits = 32, Atoi = (\<lambda>x. None),
         Unmarshal = (\<lambda>d. Some [(0x00E0, VMap [(VUint64 0x00E2, VUint64 3)])])\<rparr>
        s 0xE0 payload = []
   \<and> handleEntry (rt\<lparr>intBits := 32\<rparr>) s TypeBattery (0x01C2, VUint64 3)
       = [HSet ''battery:0'' ''state'' (RInt 3)]"
proof -
  have s1: "batterySlotOf 0x00E2 = 0" and s2: "batterySlotOf 0x00EE = 0"
    by (simp_all add: batterySlotOf_low)
  have s3: "batterySlotOf 0x01C2 = 1"
    by (simp add: batterySlotOf_ranges)
  have e1: "handleEntry r s TypeBattery (0x00E2, w) = []" for r w
    by (simp add: handleEntry_def routeEntry_def s1)
  have e2: "handleEntry rt s TypeBattery (0x00EE, v) = []"
    by (simp add: handleEntry_def routeEntry_def s2)
  have e3: "HandleUSockMessage
        \<lparr>intBits = 32, Atoi = (\<lambda>x. None),
         Unmarshal = (\<lambda>d. Some [(0x00E0, VMap [(VUint64 0x00E2, VUint64 3)])])\<rparr>
        s 0xE0 payload = []"
    using e1 by (simp add: HandleUSockMessage_def TypeBattery_def)
  have rel: "relativeSubTypeOf TypeBattery 0x01C2 = TypeBatterySlot1State"
    by (simp add: relativeSubTypeOf_def TypeBattery_def TypeBatterySlot1State_def)
  have e4: "handleEntry (rt\<lparr>intBits := 32\<rparr>) s TypeBattery (0x01C2, VUint64 3)
       = [HSet ''battery:0'' ''state'' (RInt 3)]"
    by (simp add: handleEntry_def routeEntry_def s3 rel handleBatteryMessage_def maxInt_def
        WriteInt_def KeyBatterySlot1_def)
  from e1 e2 e3 e4 show ?thesis
    by blast
qed

subsection \<open>CB battery status alerts\<close>

lemma status_filter_zero:
  "(n AND CB_BATTERY_STATUS_FILTER) = 0 \<longleftrightarrow>
     (n AND 0x0004) = 0 \<and> (n AND 0x0040) = 0 \<and> (n AND 0x0100) = 0 \<and> (n AND 0x1000) = 0 \<and>
     (n AND 0x0200) = 0 \<and> (n AND 0x2000) = 0 \<and> (n AND 0x0400) = 0 \<and> (n AND 0x4000) = 0"
proof -
  have "(n AND CB_BATTERY_STATUS_FILTER) = 0 \<longleftrightarrow>
     (n AND MAX1730X_STATUS_CURR_MIN_ALERT) = 0 \<and> (n AND MAX1730X_STATUS_CURR_MAX_ALERT) = 0 \<and>
     (n AND MAX1730X_STATUS_VOLT_MIN_ALERT) = 0 \<and> (n AND MAX1730X_STATUS_VOLT_MAX_ALERT) = 0 \<and>
     (n AND MAX1730X_STATUS_TEMP_MIN_ALERT) = 0 \<and> (n AND MAX1730X_STATUS_TEMP_MAX_ALERT) = 0 \<and>
     (n AND MAX1730X_STATUS_SOC_MIN_ALERT) = 0 \<and> (n AND MAX1730X_STATUS_SOC_MAX_ALERT) = 0"
    unfolding CB_BATTERY_STATUS_FILTER_def
    by (simp only: bit.conj_disj_distrib or_eq_0_iff conj_assoc)
  then show ?thesis
    by (simp add: MAX1730X_STATUS_defs)
qed

text \<open>The first switch of the handler on subtype 8 with an integer value is the table lookup.\<close>

lemma status_alert_handler:
  assumes "convertToInt bits v = Some n"
  shows "handleBatteryInfoMessage bits TypeBatteryInfoStatus v = spec_statusAlert n"
proof -
  have chain: "handleBatteryInfoMessage bits TypeBatteryInfoStatus v =
     (if (n AND 0x0004) \<noteq> 0 then
        [HSet ''cb-battery:alert'' ''alert'' (RStr ''Minimum Current Alert Threshold Exceeded'')]
      else if (n AND 0x0040) \<noteq> 0 then
        [HSet ''cb-battery:alert'' ''alert'' (RStr ''Maximum Current Alert Threshold Exceeded'')]
      else if (n AND 0x0100) \<noteq> 0 then
        [HSet ''cb-battery:alert'' ''alert'' (RStr ''Minimum Voltage Alert Threshold Exceeded'')]
      else if (n AND 0x1000) \<noteq> 0 then
        [HSet ''cb-battery:alert'' ''alert'' (RStr ''Maximum Voltage Alert Threshold Exceeded'')]
      else if (n AND 0x0200) \<noteq> 0 then
        [HSet ''cb-battery:alert'' ''alert'' (RStr ''Minimum Temperature Alert Threshold Exceeded'')]
      else if (n AND 0x2000) \<noteq> 0 then
        [HSet ''cb-battery:alert'' ''alert'' (RStr ''Maximum Temperature Alert Threshold Exceeded'')]
      else if (n AND 0x0400) \<noteq> 0 then
        [HSet ''cb-battery:alert'' ''alert'' (RStr ''Minimum SOC Alert Threshold Exceeded'')]
      else if (n AND 0x4000) \<noteq> 0 then
        [HSet ''cb-battery:alert'' ''alert'' (RStr ''Maximum SOC Alert Threshold Exceeded'')]
      else if (n AND CB_BATTERY_STATUS_FILTER) = 0 then [HDel ''cb-battery:alert'' ''alert'']
      else [])"
    unfolding handleBatteryInfoMessage_def Let_def
    by (simp add: assms MAX1730X_STATUS_defs writeFaultToRedis_def WriteString_def
        KeyCBBatteryAlert_def cong: if_cong)
  show ?thesis
    unfolding chain spec_statusAlert_def spec_alertTable_def
    by (simp add: status_filter_zero)
qed

text \<open>
  C7. A battery-info entry with relative subtype 8 (absolute key 0x0068) and an integer value
  \<open>n\<close> has exactly the effect the table gives: one write of the message of the first set
  bit to the field alert of cb-battery:alert, or, when no bit of the filter is set, one
  deletion of that field; no other command is issued.
\<close>

theorem status_alert_decoding:
  assumes "convertToInt (intBits rt) v = Some n"
  shows "handleEntry rt s TypeBatteryInfo (0x0068, v) = spec_statusAlert n
         \<and> ((n AND CB_BATTERY_STATUS_FILTER) = 0 \<longrightarrow>
              handleEntry rt s TypeBatteryInfo (0x0068, v) = [HDel ''cb-battery:alert'' ''alert''])
         \<and> ((n AND CB_BATTERY_STATUS_FILTER) \<noteq> 0 \<longrightarrow>
              (\<exists>msg \<in> snd ` set spec_alertTable.
                 handleEntry rt s TypeBatteryInfo (0x0068, v)
                   = [HSet ''cb-battery:alert'' ''alert'' (RStr msg)]))"
proof -
  have rel: "relativeSubTypeOf TypeBatteryInfo 0x0068 = TypeBatteryInfoStatus"
    by (simp add: relativeSubTypeOf_def TypeBatteryInfo_def TypeBatteryInfoStatus_def)
  have route: "handleEntry rt s TypeBatteryInfo (0x0068, v)
      = handleBatteryInfoMessage (intBits rt) TypeBatteryInfoStatus v"
    unfolding handleEntry_def fst_conv snd_conv rel
    by (simp add: routeEntry_def MessageType_defs)
  have eq: "handleEntry rt s TypeBatteryInfo (0x0068, v) = spec_statusAlert n"
    unfolding route by (rule status_alert_handler [OF assms])
  have del: "(n AND CB_BATTERY_STATUS_FILTER) = 0 \<Longrightarrow>
      spec_statusAlert n = [HDel ''cb-battery:alert'' ''alert'']"
    by (simp add: status_filter_zero spec_statusAlert_def spec_alertTable_def)
  have wr: "(n AND CB_BATTERY_STATUS_FILTER) \<noteq> 0 \<Longrightarrow>
      \<exists>msg \<in> snd ` set spec_alertTable.
        spec_statusAlert n = [HSet ''cb-battery:alert'' ''alert'' (RStr msg)]"
    unfolding status_filter_zero spec_statusAlert_def spec_alertTable_def
    by auto
  from eq del wr show ?thesis
    by simp
qed

theorem status_alert_decoding_witness:
  "convertToInt (intBits \<lparr>intBits = 32, Atoi = (\<lambda>x. None), Unmarshal = (\<lambda>d. None)\<rparr>)
      (VUint64 0x1040) = Some 0x1040
   \<and> handleEntry \<lparr>intBits = 32, Atoi = (\<lambda>x. None), Unmarshal = (\<lambda>d. None)\<rparr>
        \<lparr>usock = None, redis = (\<lambda>k f. None)\<rparr>
        TypeBatteryInfo (0x0068, VUint64 0x1040)
       = [HSet ''cb-battery:alert'' ''alert'' (RStr ''Maximum Current Alert Threshold Exceeded'')]
   \<and> convertToInt (intBits \<lparr>intBits = 32, Atoi = (\<lambda>x. None), Unmarshal = (\<lambda>d. None)\<rparr>)
      (VUint64 0x0001) = Some 1
   \<and> handleEntry \<lparr>intBits = 32, Atoi = (\<lambda>x. None), Unmarshal = (\<lambda>d. None)\<rparr>
        \<lparr>usock = None, redis = (\<lambda>k f. None)\<rparr>
        TypeBatteryInfo (0x0068, VUint64 0x0001)
       = [HDel ''cb-battery:alert'' ''alert'']"
proof -
  let ?rt = "\<lparr>intBits = 32, Atoi = (\<lambda>x. None), Unmarshal = (\<lambda>d. None)\<rparr>"
  have h1: "convertToInt (intBits ?rt) (VUint64 0x1040) = Some 0x1040"
    by (simp add: maxInt_def)
  have h2: "convertToInt (intBits ?rt) (VUint64 0x0001) = Some 1"
    by (simp add: maxInt_def)
  have v1: "spec_statusAlert 0x1040
      = [HSet ''cb-battery:alert'' ''alert'' (RStr ''Maximum Current Alert Threshold Exceeded'')]"
    by (simp add: spec_statusAlert_def spec_alertTable_def)
  have v2: "spec_statusAlert 1 = [HDel ''cb-battery:alert'' ''alert'']"
    by (simp add: spec_statusAlert_def spec_alertTable_def)
  from h1 h2 v1 v2
    status_alert_decoding [OF h1, where s = "\<lparr>usock = None, redis = (\<lambda>k f. None)\<rparr>"]
    status_alert_decoding [OF h2, where s = "\<lparr>usock = None, redis = (\<lambda>k f. None)\<rparr>"]
  show ?thesis
    by simp
qed

section \<open>Echo suppression\<close>

lemma publishes_append: "publishes (xs @ ys) = publishes xs @ publishes ys"
  by (induction xs rule: publishes.induct) simp_all

lemma publishes_concat: "publishes (concat xss) = concat (map publishes xss)"
  by (induction xss) (simp_all add: publishes_append)

lemma pub_if: "publishes a = [] \<Longrightarrow> publishes b = [] \<Longrightarrow> publishes (if c then a else b) = []"
  by simp

lemma pub_WriteInt: "publishes (WriteInt k f v) = []"
  by (simp add: WriteInt_def)

lemma pub_WriteString: "publishes (WriteString k f v) = []"
  by (simp add: WriteString_def)

lemma pub_Nil: "publishes [] = []"
  by simp

text \<open>The handlers that write without publishing.\<close>

lemma pub_battery: "publishes (handleBatteryMessage bits st v slot) = []"
  by (simp add: handleBatteryMessage_def pub_WriteInt pub_WriteString Let_def split: option.splits)

lemma pub_scooter: "publishes (handleScooterInfoMessage bits mt k v) = []"
  by (simp add: handleScooterInfoMessage_def pub_WriteInt pub_WriteString Let_def
      split: option.splits)

lemma pub_version: "publishes (handleBLEVersionMessage mt k v) = []"
  by (simp add: handleBLEVersionMessage_def pub_WriteString Let_def split: option.splits)

lemma pub_datastream: "publishes (handleDataStreamMessage bits st v) = []"
  by (simp add: handleDataStreamMessage_def pub_WriteInt split: option.splits)

lemma pub_aux: "publishes (handleAuxBatteryMessage bits st v) = []"
  by (simp add: handleAuxBatteryMessage_def pub_WriteInt pub_WriteString split: option.splits)

lemma pub_event: "publishes (handleEventMessage mt k v) = []"
  by (simp add: handleEventMessage_def split: val.splits)

lemma pub_fault: "publishes (writeFaultToRedis key src code msg ft) = []"
  by (simp add: writeFaultToRedis_def WriteString_def)

lemma pub_standard: "publishes (batteryInfoStandard st isInt isString vi vs) = []"
  unfolding batteryInfoStandard_def Let_def
  by (intro pub_if pub_WriteInt pub_WriteString pub_Nil)

lemma pub_batteryinfo: "publishes (handleBatteryInfoMessage bits st v) = []"
  unfolding handleBatteryInfoMessage_def Let_def
  by (intro pub_if pub_fault pub_standard pub_Nil)

text \<open>The three handlers that publish: on their own channel, the field name and a colon first.\<close>

lemma pub_debug:
  "cp \<in> set (publishes (handleBLEDebugMessage bits sock mt k v)) \<Longrightarrow> inboundPublish cp"
  by (auto simp add: handleBLEDebugMessage_def WriteInt_def WriteAndPublishInt_def Let_def
      inboundPublish_def KeyPowerManager_def publishes_append
      split: val.splits list.splits option.splits sum.splits if_splits)

lemma pub_param:
  "cp \<in> set (publishes (handleBLEParamMessage mt k v)) \<Longrightarrow> inboundPublish cp"
  by (auto simp add: handleBLEParamMessage_def WriteString_def WriteAndPublishString_def Let_def
      inboundPublish_def KeyBLEPairingPin_def
      split: option.splits if_splits)

lemma pub_mux:
  "cp \<in> set (publishes (handlePowerMuxMessage bits st v)) \<Longrightarrow> inboundPublish cp"
  by (auto simp add: handlePowerMuxMessage_def WriteAndPublishString_def
      inboundPublish_def split: option.splits if_splits)

lemma io_if: "inboundOnly a \<Longrightarrow> inboundOnly b \<Longrightarrow> inboundOnly (if c then a else b)"
  by simp

lemma io_none: "publishes es = [] \<Longrightarrow> inboundOnly es"
  by (simp add: inboundOnly_def)

lemma io_Nil: "inboundOnly []"
  by (simp add: inboundOnly_def)

lemma io_concat:
  "(\<And>x. x \<in> set xs \<Longrightarrow> inboundOnly (f x)) \<Longrightarrow> inboundOnly (concat (map f xs))"
  by (auto simp add: inboundOnly_def publishes_concat)

lemma io_battery: "inboundOnly (handleBatteryMessage bits st v slot)"
  by (rule io_none [OF pub_battery])

lemma io_vehicle: "inboundOnly (handleVehicleStateMessage st v)"
  by (simp add: handleVehicleStateMessage_def io_Nil)

lemma io_scooter: "inboundOnly (handleScooterInfoMessage bits mt k v)"
  by (rule io_none [OF pub_scooter])

lemma io_param: "inboundOnly (handleBLEParamMessage mt k v)"
  using pub_param by (simp add: inboundOnly_def)

lemma io_version: "inboundOnly (handleBLEVersionMessage mt k v)"
  by (rule io_none [OF pub_version])

lemma io_debug: "inboundOnly (handleBLEDebugMessage bits sock mt k v)"
  using pub_debug by (simp add: inboundOnly_def)

lemma io_datastream: "inboundOnly (handleDataStreamMessage bits st v)"
  by (rule io_none [OF pub_datastream])

lemma io_power: "inboundOnly (handlePowerManagementMessage st v)"
  by (simp add: handlePowerManagementMessage_def io_Nil)

lemma io_aux: "inboundOnly (handleAuxBatteryMessage bits st v)"
  by (rule io_none [OF pub_aux])

lemma io_command: "inboundOnly (handleBLECommandMessage mt k v)"
  by (simp add: handleBLECommandMessage_def io_Nil)

lemma io_batteryinfo: "inboundOnly (handleBatteryInfoMessage bits st v)"
  by (rule io_none [OF pub_batteryinfo])

lemma io_mux: "inboundOnly (handlePowerMuxMessage bits st v)"
  using pub_mux by (simp add: inboundOnly_def)

lemma io_event: "inboundOnly (handleEventMessage mt k v)"
  by (rule io_none [OF pub_event])

lemma io_route: "inboundOnly (routeEntry rt s mt k rel v)"
  unfolding routeEntry_def Let_def
  by (intro io_if io_battery io_vehicle io_scooter io_param io_version io_debug io_datastream
        io_power io_aux io_command io_batteryinfo io_mux io_event io_Nil)

lemma io_entry: "inboundOnly (handleEntry rt s mt kv)"
  unfolding handleEntry_def by (rule io_route)

lemma io_handle: "inboundOnly (HandleUSockMessage rt s fid pl)"
  unfolding HandleUSockMessage_def
  by (auto split: option.splits prod.splits val.splits intro!: io_concat io_entry io_Nil)

text \<open>The subscriber compares the whole payload with the field name, so none of them matches.\<close>

lemma onRedis_ble: "p \<noteq> ''pin-code'' \<Longrightarrow> onRedisMessage rt mtxt s ''ble'' p = []"
  by (simp add: onRedisMessage_def Key_defs)

lemma onRedis_pm: "p \<noteq> ''state'' \<Longrightarrow> onRedisMessage rt mtxt s ''power-manager'' p = []"
  by (simp add: onRedisMessage_def Key_defs)

lemma onRedis_mux: "onRedisMessage rt mtxt s ''power-mux'' p = []"
  by (simp add: onRedisMessage_def Key_defs)

lemma take_pin: "take 9 p = ''pin-code:'' \<Longrightarrow> p \<noteq> ''pin-code''"
  by auto

lemma take_reason: "take 17 p = ''nrf-reset-reason:'' \<Longrightarrow> p \<noteq> ''state''"
  by auto

lemma inbound_no_echo:
  assumes "inboundPublish (ch, p)"
  shows "onRedisMessage rt mtxt s ch p = []"
proof -
  from assms consider
    (ble) "ch = ''ble''" "take 9 p = ''pin-code:''"
    | (pm) "ch = ''power-manager''" "take 17 p = ''nrf-reset-reason:''"
    | (mux) "ch = ''power-mux''"
    unfolding inboundPublish_def by blast
  then show ?thesis
  proof cases
    case ble
    then show ?thesis using onRedis_ble [OF take_pin] by blast
  next
    case pm
    then show ?thesis using onRedis_pm [OF take_reason] by blast
  next
    case mux
    then show ?thesis using onRedis_mux by blast
  qed
qed

lemma pin_remove_effects:
  "handleEntry rt s TypeBLEParam (0xA083, v)
     = [HDel ''ble'' ''pin-code'', HSet ''ble'' ''pin-code'' (RStr ''''),
        Publish ''ble'' ''pin-code:'']"
  by (simp add: handleEntry_def routeEntry_def MessageType_defs handleBLEParamMessage_def
      TypeBLEParamMACAddress_def TypeBLEParamData_def WriteAndPublishString_def
      KeyBLEPairingPin_def)

text \<open>
  C5. No publish issued while an inbound message is handled makes the subscriber of its channel
  write to the port, whatever the store holds then. In particular the pairing-pin-remove
  signal (envelope of the BLE parameter family with the absolute subtype 0xA083) deletes the
  field, writes the empty string and publishes \<open>pin-code:\<close> on channel \<open>ble\<close>, and the
  subscriber on \<open>ble\<close> sends nothing for that payload.
\<close>

theorem inbound_publishes_do_not_echo:
  "(\<forall>cp \<in> set (publishes (HandleUSockMessage rt s frameID payload)).
      onRedisMessage rt' mtxt s' (fst cp) (snd cp) = [])
   \<and> (Unmarshal rt (Data payload) = Some [(TypeBLEParam, VMap [(VUint64 0xA083, v)])] \<longrightarrow>
        HandleUSockMessage rt s frameID payload
          = [HDel ''ble'' ''pin-code'', HSet ''ble'' ''pin-code'' (RStr ''''),
             Publish ''ble'' ''pin-code:'']
        \<and> onRedisMessage rt' mtxt s' ''ble'' ''pin-code:'' = [])"
proof (intro conjI ballI impI)
  fix cp
  assume "cp \<in> set (publishes (HandleUSockMessage rt s frameID payload))"
  with io_handle [of rt s frameID payload] have "inboundPublish (fst cp, snd cp)"
    by (simp add: inboundOnly_def)
  then show "onRedisMessage rt' mtxt s' (fst cp) (snd cp) = []"
    by (rule inbound_no_echo)
next
  assume "Unmarshal rt (Data payload) = Some [(TypeBLEParam, VMap [(VUint64 0xA083, v)])]"
  then show "HandleUSockMessage rt s frameID payload
          = [HDel ''ble'' ''pin-code'', HSet ''ble'' ''pin-code'' (RStr ''''),
             Publish ''ble'' ''pin-code:'']"
    by (simp add: HandleUSockMessage_def pin_remove_effects)
next
  show "onRedisMessage rt' mtxt s' ''ble'' ''pin-code:'' = []"
    by (rule onRedis_ble) simp
qed

theorem inbound_publishes_do_not_echo_witness:
  "Unmarshal \<lparr>intBits = 32, Atoi = (\<lambda>x. None),
              Unmarshal = (\<lambda>d. Some [(TypeBLEParam, VMap [(VUint64 0xA083, VUint64 1)])])\<rparr>
      (Data \<lparr>MsgID = 0x80, Data = [], Size = 0\<rparr>)
     = Some [(TypeBLEParam, VMap [(VUint64 0xA083, VUint64 1)])]
   \<and> (''ble'', ''pin-code:'') \<in> set (publishes (HandleUSockMessage
        \<lparr>intBits = 32, Atoi = (\<lambda>x. None),
         Unmarshal = (\<lambda>d. Some [(TypeBLEParam, VMap [(VUint64 0xA083, VUint64 1)])])\<rparr>
        \<lparr>usock = Some (\<lambda>bs. True), redis = (\<lambda>k f. None)\<rparr>
        0x80 \<lparr>MsgID = 0x80, Data = [], Size = 0\<rparr>))
   \<and> onRedisMessage \<lparr>intBits = 32, Atoi = (\<lambda>x. None), Unmarshal = (\<lambda>d. None)\<rparr>
        (\<lambda>x. []) \<lparr>usock = Some (\<lambda>bs. True), redis = (\<lambda>k f. None)\<rparr>
        ''ble'' ''pin-code:'' = []"
proof -
  let ?rt = "\<lparr>intBits = 32, Atoi = (\<lambda>x. None),
              Unmarshal = (\<lambda>d. Some [(TypeBLEParam, VMap [(VUint64 0xA083, VUint64 1)])])\<rparr>"
  let ?pl = "\<lparr>MsgID = 0x80, Data = [], Size = 0\<rparr>"
  have h: "Unmarshal ?rt (Data ?pl) = Some [(TypeBLEParam, VMap [(VUint64 0xA083, VUint64 1)])]"
    by simp
  let ?s = "\<lparr>usock = Some (\<lambda>bs. True), redis = (\<lambda>k f. None)\<rparr>"
  let ?rt' = "\<lparr>intBits = 32, Atoi = (\<lambda>x. None), Unmarshal = (\<lambda>d. None)\<rparr>"
  note t = inbound_publishes_do_not_echo [where rt = ?rt and s = ?s and frameID = "0x80"
      and payload = ?pl and v = "VUint64 1" and rt' = ?rt' and mtxt = "\<lambda>x. []" and s' = ?s]
  from t h have eff: "HandleUSockMessage ?rt ?s 0x80 ?pl
      = [HDel ''ble'' ''pin-code'', HSet ''ble'' ''pin-code'' (RStr ''''),
         Publish ''ble'' ''pin-code:'']"
    by blast
  have mem: "(''ble'', ''pin-code:'') \<in> set (publishes (HandleUSockMessage ?rt ?s 0x80 ?pl))"
    unfolding eff by simp
  from t have "\<forall>cp \<in> set (publishes (HandleUSockMessage ?rt ?s 0x80 ?pl)).
      onRedisMessage ?rt' (\<lambda>x. []) ?s (fst cp) (snd cp) = []"
    by (rule conjunct1)
  from bspec [OF this mem] have "onRedisMessage ?rt' (\<lambda>x. []) ?s ''ble'' ''pin-code:'' = []"
    by simp
  with h mem show ?thesis
    by (intro conjI)
qed

section \<open>Properties of the outbound translation\<close>

lemma length_cborHead: "length (cborHead major n) \<le> 3"
  by (simp add: cborHead_def)

lemma length_cborMarshal: "length (cborMarshal messageType absoluteKey v) \<le> MaxPayloadLength"
  using length_cborHead [of 5 1] length_cborHead [of 0 messageType]
    length_cborHead [of 0 absoluteKey] length_cborHead [of 0 v]
  by (simp add: cborMarshal_def MaxPayloadLength_def)

lemma low_byte: "(ucast (m AND 0xFF :: uint16) :: byte) = ucast m"
  unfolding and_ff by (rule bit_word_eqI) (auto simp: bit_simps)

text \<open>With a port that takes every write, a message is sent as one frame around its envelope.\<close>

lemma writeUARTMessage_ok:
  assumes "\<forall>bs. p bs"
  shows "writeUARTMessage (Some p) messageType subType v
           = Inr (envelopeFrame messageType (messageType + subType) v)"
  using assms length_cborMarshal [of messageType "messageType + subType" v]
  by (simp add: writeUARTMessage_def WriteWithFrameID_def envelopeFrame_def low_byte Let_def)




text \<open>The battery-state mapping: unknown 0, asleep 1, idle 2, active 3, anything else 0.\<close>

lemma batteryStateToInt_values:
  "batteryStateToInt ''unknown'' = 0" "batteryStateToInt ''asleep'' = 1"
  "batteryStateToInt ''idle'' = 2" "batteryStateToInt ''active'' = 3"
  "st \<notin> {''unknown'', ''asleep'', ''idle'', ''active''} \<Longrightarrow> batteryStateToInt st = 0"
  by (simp_all add: batteryStateToInt_def BatteryStateUnknown_def BatteryStateAsleep_def
      BatteryStateIdle_def BatteryStateActive_def)

text \<open>
  What the service sends on a notification for the field state of a battery key: one frame of
  the battery family with the mapped state, under the inner key 0x01C2 for slot 1 and 0x01CE
  for slot 2.
\<close>

lemma battery_state_outbound:
  assumes "usock s = Some p" and "\<forall>bs. p bs"
  shows "onRedisMessage rt mtxt s ''battery:0'' ''state''
           = [envelopeFrame 0x00E0 0x01C2
                (of_int (batteryStateToInt
                   (case redis s ''battery:0'' ''state'' of None \<Rightarrow> ''unknown'' | Some x \<Rightarrow> x)))]"
    and "onRedisMessage rt mtxt s ''battery:1'' ''state''
           = [envelopeFrame 0x00E0 0x01CE
                (of_int (batteryStateToInt
                   (case redis s ''battery:1'' ''state'' of None \<Rightarrow> ''unknown'' | Some x \<Rightarrow> x)))]"
proof -
  have sel1: "onRedisMessage rt mtxt s ''battery:0'' ''state''
      = written (UpdateBatteryActiveStatus s 1)"
    by (simp add: onRedisMessage_def Key_defs)
  have sel2: "onRedisMessage rt mtxt s ''battery:1'' ''state''
      = written (UpdateBatteryActiveStatus s 2)"
    by (simp add: onRedisMessage_def Key_defs)
  show "onRedisMessage rt mtxt s ''battery:0'' ''state''
           = [envelopeFrame 0x00E0 0x01C2
                (of_int (batteryStateToInt
                   (case redis s ''battery:0'' ''state'' of None \<Rightarrow> ''unknown'' | Some x \<Rightarrow> x)))]"
    unfolding sel1
    by (simp add: UpdateBatteryActiveStatus_def GetString_def assms(1)
        writeUARTMessage_ok [OF assms(2)] written_def KeyBatterySlot1_def TypeBattery_def
        TypeBatterySlot1State_def Let_def)
  show "onRedisMessage rt mtxt s ''battery:1'' ''state''
           = [envelopeFrame 0x00E0 0x01CE
                (of_int (batteryStateToInt
                   (case redis s ''battery:1'' ''state'' of None \<Rightarrow> ''unknown'' | Some x \<Rightarrow> x)))]"
    unfolding sel2
    by (simp add: UpdateBatteryActiveStatus_def GetString_def assms(1)
        writeUARTMessage_ok [OF assms(2)] written_def KeyBatterySlot2_def TypeBattery_def
        TypeBatterySlot2State_def Let_def)
qed

text \<open>
  C4. Outbound battery state at the notification for the field state of battery:0 with the
  stored string active: one frame is sent, with frame identifier 0xE0 and the envelope
  \<open>{0x00E0: {0x01C2: 3}}\<close>, bytes A1 18 E0 A1 19 01 C2 03. The value is the mapped state; the
  inner key is 0x01C2 and not 0x00E2, since the family base is added to a constant that
  contains it already.
\<close>

theorem battery_state_outbound_key_01C2:
  "onRedisMessage rt mtxt \<lparr>usock = Some (\<lambda>bs. True), redis = (\<lambda>k f. Some ''active'')\<rparr>
      ''battery:0'' ''state''
     = [completeFrame 0xE0 [0xA1, 0x18, 0xE0, 0xA1, 0x19, 0x01, 0xC2, 0x03]]
   \<and> cborMarshal 0x00E0 0x00E2 3 = [0xA1, 0x18, 0xE0, 0xA1, 0x18, 0xE2, 0x03]
   \<and> onRedisMessage rt mtxt \<lparr>usock = Some (\<lambda>bs. True), redis = (\<lambda>k f. Some ''active'')\<rparr>
      ''battery:0'' ''state''
     \<noteq> [envelopeFrame 0x00E0 0x00E2 3]"
proof -
  let ?s = "\<lparr>usock = Some (\<lambda>bs. True), redis = (\<lambda>k f. Some ''active'')\<rparr>"
  have a: "usock ?s = Some (\<lambda>bs. True)"
    by simp
  have p: "\<forall>bs :: byte list. (\<lambda>bs. True) bs"
    by simp
  have m1: "cborMarshal 0x00E0 0x01C2 3 = [0xA1, 0x18, 0xE0, 0xA1, 0x19, 0x01, 0xC2, 0x03]"
    by (simp add: cborMarshal_def cborHead_def)
  have m2: "cborMarshal 0x00E0 0x00E2 3 = [0xA1, 0x18, 0xE0, 0xA1, 0x18, 0xE2, 0x03]"
    by (simp add: cborMarshal_def cborHead_def)
  have sent: "onRedisMessage rt mtxt ?s ''battery:0'' ''state''
      = [completeFrame 0xE0 [0xA1, 0x18, 0xE0, 0xA1, 0x19, 0x01, 0xC2, 0x03]]"
    using battery_state_outbound(1) [OF a p, of rt mtxt]
    by (simp add: batteryStateToInt_values envelopeFrame_def m1)
  have len: "length (completeFrame 0xE0 [0xA1, 0x18, 0xE0, 0xA1, 0x19, 0x01, 0xC2, 0x03])
      \<noteq> length (envelopeFrame 0x00E0 0x00E2 3)"
    by (simp add: envelopeFrame_def m2 completeFrame_def frameHeader_def putUint16_def Let_def)
  then have "completeFrame 0xE0 [0xA1, 0x18, 0xE0, 0xA1, 0x19, 0x01, 0xC2, 0x03]
      \<noteq> envelopeFrame 0x00E0 0x00E2 3"
    by auto
  with sent m2 show ?thesis
    by simp
qed

end
